theory Spec2Isabelle
  imports Main "HOL-Library.Multiset"
begin

section \<open>Text primitives\<close>

text \<open>
  Text is modelled as \<^typ>\<open>string\<close>, one \<^typ>\<open>char\<close> per code point; the
  model covers ASCII text. SQL NULL and Python \<open>None\<close> are \<^term>\<open>None\<close>.
\<close>

text \<open>Python \<open>str.isspace\<close> on one ASCII code point: TAB..CR, FS..US and the space.\<close>

definition py_isspace :: "char \<Rightarrow> bool" where
  "py_isspace c =
     (let n = (of_char c :: nat) in (9 \<le> n \<and> n \<le> 13) \<or> (28 \<le> n \<and> n \<le> 32))"

text \<open>Python \<open>str.strip()\<close>: whitespace removed at both ends.\<close>

definition py_strip :: "string \<Rightarrow> string" where
  "py_strip s = rev (dropWhile py_isspace (rev (dropWhile py_isspace s)))"

text \<open>
  Python \<open>str.split(sep)\<close> for a one-character separator: every occurrence splits,
  so a text with \<open>n\<close> separators gives \<open>n + 1\<close> parts (never an empty list).
\<close>

fun py_split :: "char \<Rightarrow> string \<Rightarrow> string list" where
  "py_split sep [] = [[]]"
| "py_split sep (c # cs) =
     (if c = sep then [] # py_split sep cs
      else (case py_split sep cs of
              [] \<Rightarrow> [[c]]
            | p # ps \<Rightarrow> (c # p) # ps))"

text \<open>Python truthiness of a string, as in \<open>x if x else None\<close>.\<close>

definition truthy_or_none :: "string \<Rightarrow> string option" where
  "truthy_or_none s = (if s \<noteq> [] then Some s else None)"

section \<open>Location Normalizer\<close>

record location_components =
  city :: "string option"
  state_province :: "string option"
  country :: "string option"

text \<open>
  \<open>DataTransformation.extract_location_components\<close>. The location is \<open>None\<close>
  for Python \<open>None\<close>/NaN; \<open>not location_string\<close> also holds for the empty text.
\<close>

definition extract_location_components ::
  "string option \<Rightarrow> string option \<Rightarrow> location_components" where
  "extract_location_components location_string cntry =
     (case location_string of
        None \<Rightarrow> \<lparr>city = None, state_province = None, country = cntry\<rparr>
      | Some raw \<Rightarrow>
          if raw = [] then \<lparr>city = None, state_province = None, country = cntry\<rparr>
          else
            let parts = map py_strip (py_split CHR '','' (py_strip raw)) in
            if length parts \<ge> 3 then
              \<lparr>city = truthy_or_none (parts ! 0),
               state_province = truthy_or_none (parts ! 1),
               country = cntry\<rparr>
            else if length parts = 2 then
              \<lparr>city = truthy_or_none (parts ! 0),
               state_province = truthy_or_none (parts ! 1),
               country = cntry\<rparr>
            else if length parts = 1 then
              \<lparr>city = truthy_or_none (parts ! 0),
               state_province = None,
               country = cntry\<rparr>
            else \<lparr>city = None, state_province = None, country = cntry\<rparr>)"

text \<open>
  The normalizer as section 4.1 of the specification words it: the segments are the
  comma-separated pieces, trimmed; the city is the first segment, the state/province
  the second when there is one.
\<close>

definition segments :: "string \<Rightarrow> string list" where
  "segments raw = map py_strip (py_split CHR '','' (py_strip raw))"

definition normalizer_as_stated ::
  "string option \<Rightarrow> string option \<Rightarrow> location_components" where
  "normalizer_as_stated location_string cntry =
     (case location_string of
        None \<Rightarrow> \<lparr>city = None, state_province = None, country = cntry\<rparr>
      | Some raw \<Rightarrow>
          if raw = [] then \<lparr>city = None, state_province = None, country = cntry\<rparr>
          else (case segments raw of
                  [] \<Rightarrow> \<lparr>city = None, state_province = None, country = cntry\<rparr>
                | [c] \<Rightarrow> \<lparr>city = Some c, state_province = None, country = cntry\<rparr>
                | c # s # _ \<Rightarrow> \<lparr>city = Some c, state_province = Some s, country = cntry\<rparr>))"

text \<open>The same, with an empty segment read as NULL.\<close>

definition normalizer_amended ::
  "string option \<Rightarrow> string option \<Rightarrow> location_components" where
  "normalizer_amended location_string cntry =
     (case location_string of
        None \<Rightarrow> \<lparr>city = None, state_province = None, country = cntry\<rparr>
      | Some raw \<Rightarrow>
          if raw = [] then \<lparr>city = None, state_province = None, country = cntry\<rparr>
          else (case segments raw of
                  [] \<Rightarrow> \<lparr>city = None, state_province = None, country = cntry\<rparr>
                | [c] \<Rightarrow> \<lparr>city = truthy_or_none c, state_province = None, country = cntry\<rparr>
                | c # s # _ \<Rightarrow>
                    \<lparr>city = truthy_or_none c, state_province = truthy_or_none s,
                     country = cntry\<rparr>))"

section \<open>SQL primitives\<close>

text \<open>
  SQL comparisons are three-valued: a comparison with NULL is unknown (\<^term>\<open>None\<close>),
  and a \<open>WHERE\<close> or \<open>ON\<close> condition keeps a row only when it is true.
\<close>

definition sql_eq :: "'a option \<Rightarrow> 'a option \<Rightarrow> bool option" where
  "sql_eq a b = (case (a, b) of (Some x, Some y) \<Rightarrow> Some (x = y) | _ \<Rightarrow> None)"

definition sql_neq :: "'a option \<Rightarrow> 'a option \<Rightarrow> bool option" where
  "sql_neq a b = (case (a, b) of (Some x, Some y) \<Rightarrow> Some (x \<noteq> y) | _ \<Rightarrow> None)"

definition sql_and :: "bool option \<Rightarrow> bool option \<Rightarrow> bool option" where
  "sql_and a b =
     (if a = Some False \<or> b = Some False then Some False
      else if a = Some True \<and> b = Some True then Some True
      else None)"

definition is_true :: "bool option \<Rightarrow> bool" where
  "is_true v = (v = Some True)"

definition coalesce :: "'a option \<Rightarrow> 'a option \<Rightarrow> 'a option" where
  "coalesce a b = (case a of Some x \<Rightarrow> Some x | None \<Rightarrow> b)"

text \<open>\<open>TRIM(x)\<close>: spaces (and only spaces) removed at both ends.\<close>

definition sql_trim :: "string \<Rightarrow> string" where
  "sql_trim s =
     rev (dropWhile (\<lambda>c. c = CHR '' '') (rev (dropWhile (\<lambda>c. c = CHR '' '') s)))"

text \<open>Lower-casing of ASCII text, for Python \<open>str.lower\<close> and SQL \<open>LOWER\<close>.\<close>

definition lower_char :: "char \<Rightarrow> char" where
  "lower_char c =
     (let n = (of_char c :: nat) in if 65 \<le> n \<and> n \<le> 90 then char_of (n + 32) else c)"

definition lower :: "string \<Rightarrow> string" where
  "lower s = map lower_char s"

text \<open>The class \<open>\s\<close> of the regular expressions: space, TAB, LF, VT, FF, CR.\<close>

definition sql_isspace :: "char \<Rightarrow> bool" where
  "sql_isspace c = (let n = (of_char c :: nat) in (9 \<le> n \<and> n \<le> 13) \<or> n = 32)"

text \<open>
  A case-insensitive match of the literal \<open>word\<close> followed by \<open>\s+\<close> at the start
  of \<open>s\<close>; the result is what remains after the match.
\<close>

definition match_prefix_ws :: "string \<Rightarrow> string \<Rightarrow> string option" where
  "match_prefix_ws word s =
     (let rest = drop (length word) s in
      if lower (take (length word) s) = word \<and> rest \<noteq> [] \<and> sql_isspace (hd rest)
      then Some (dropWhile sql_isspace rest) else None)"

text \<open>\<open>REGEXP_REPLACE(x, '^(via|melalui)\s+', '', 'i')\<close>.\<close>

definition regexp_replace_via :: "string \<Rightarrow> string" where
  "regexp_replace_via s =
     (case match_prefix_ws ''via'' s of
        Some rest \<Rightarrow> rest
      | None \<Rightarrow> (case match_prefix_ws ''melalui'' s of Some rest \<Rightarrow> rest | None \<Rightarrow> s))"

section \<open>The relational store\<close>

text \<open>A JSONB value as the database driver hands it to Python.\<close>

datatype json =
  JNull | JBool bool | JNum int | JStr string | JArr "json list" | JObj "(string \<times> json) list"

text \<open>One row of \<open>staging_jobs\<close>; every column but the identifier is nullable.\<close>

record staging_row =
  sid :: nat
  job_title_short :: "string option"
  job_title :: "string option"
  job_location :: "string option"
  job_via :: "string option"
  job_schedule_type :: "string option"
  job_work_from_home :: "bool option"
  search_location :: "string option"
  job_posted_date :: "nat option"
  job_no_degree_mention :: "bool option"
  job_health_insurance :: "bool option"
  job_country :: "string option"
  salary_rate :: "string option"
  salary_year_avg :: "int option"
  salary_hour_avg :: "int option"
  company_name :: "string option"
  job_skills :: "string option list option"
  job_type_skills :: "json option"

text \<open>
  Modelled from the spec: the destination schema (\<open>sql/schema.sql\<close> is not among the
  sources). Every destination table but the bridge has a surrogate id drawn from a
  sequence of its own; companies, platforms, schedule types and skill categories are
  (id, unique name) tables and share the row type \<open>dim_row\<close>; skills are unique on the
  name; locations are unique on (city, state/province, country, full location); the
  bridge is unique on (job, skill). A unique constraint compares as SQL does: a NULL
  component conflicts with nothing.
\<close>

record dim_row =
  dim_id :: nat
  dim_name :: string

record location_row =
  location_id :: nat
  main_city :: "string option"
  main_state_province :: "string option"
  l_country :: string
  full_location :: string

record skill_row =
  skill_id :: nat
  skill_name :: string
  category_id :: "nat option"

record job_values =
  j_job_title :: "string option"
  j_job_title_short :: "string option"
  j_company_id :: "nat option"
  j_location_id :: "nat option"
  j_platform_id :: "nat option"
  j_schedule_type_id :: "nat option"
  j_job_work_from_home :: "bool option"
  j_job_posted_date :: "nat option"
  j_job_no_degree_mention :: "bool option"
  j_job_health_insurance :: "bool option"
  j_salary_rate :: "string option"
  j_salary_year_avg :: "int option"
  j_salary_hour_avg :: "int option"
  j_search_location :: "string option"

record job_row =
  job_id :: nat
  cols :: job_values

record job_skill_row =
  js_job_id :: nat
  js_skill_id :: nat

datatype table =
  StagingJobs | JobSkills | Jobs | Skills | SkillCategories | Companies | Locations
  | Platforms | ScheduleTypes

text \<open>
  The store: the rows of each table in insertion order, and the last value each
  sequence has given out (a \<open>DELETE\<close> does not reset it).
\<close>

record db =
  staging_jobs :: "staging_row list"
  job_skills_tbl :: "job_skill_row list"
  jobs :: "job_row list"
  skills :: "skill_row list"
  skill_categories :: "dim_row list"
  companies :: "dim_row list"
  locations :: "location_row list"
  platforms :: "dim_row list"
  schedule_types :: "dim_row list"
  seqs :: "table \<Rightarrow> nat"

text \<open>
  The order of the rows of a \<open>SELECT DISTINCT\<close> without \<open>ORDER BY\<close>, and the
  iteration order of a Python set, are not fixed by the source: the model takes them as
  parameters, functions that rearrange the rows they are given.
\<close>

record orders =
  rows_order :: "string list \<Rightarrow> string list"
  pairs_order ::
    "(string option \<times> string option) list \<Rightarrow> (string option \<times> string option) list"
  docs_order :: "json list \<Rightarrow> json list"
  elems_order :: "string option list \<Rightarrow> string option list"
  set_order :: "string list \<Rightarrow> string list"

definition valid_orders :: "orders \<Rightarrow> bool" where
  "valid_orders env =
     ((\<forall>xs. mset (rows_order env xs) = mset xs) \<and>
      (\<forall>xs. mset (pairs_order env xs) = mset xs) \<and>
      (\<forall>xs. mset (docs_order env xs) = mset xs) \<and>
      (\<forall>xs. mset (elems_order env xs) = mset xs) \<and>
      (\<forall>xs. mset (set_order env xs) = mset xs))"

text \<open>The orders that leave every enumeration as it is.\<close>

definition given_orders :: orders where
  "given_orders =
     \<lparr>rows_order = (\<lambda>xs. xs), pairs_order = (\<lambda>xs. xs), docs_order = (\<lambda>xs. xs),
      elems_order = (\<lambda>xs. xs), set_order = (\<lambda>xs. xs)\<rparr>"

section \<open>Purge\<close>

text \<open>\<open>DELETE FROM t\<close>.\<close>

fun delete_from :: "table \<Rightarrow> db \<Rightarrow> db" where
  "delete_from StagingJobs d = d\<lparr>staging_jobs := []\<rparr>"
| "delete_from JobSkills d = d\<lparr>job_skills_tbl := []\<rparr>"
| "delete_from Jobs d = d\<lparr>jobs := []\<rparr>"
| "delete_from Skills d = d\<lparr>skills := []\<rparr>"
| "delete_from SkillCategories d = d\<lparr>skill_categories := []\<rparr>"
| "delete_from Companies d = d\<lparr>companies := []\<rparr>"
| "delete_from Locations d = d\<lparr>locations := []\<rparr>"
| "delete_from Platforms d = d\<lparr>platforms := []\<rparr>"
| "delete_from ScheduleTypes d = d\<lparr>schedule_types := []\<rparr>"

text \<open>The tables \<open>delete_previous_info\<close> empties, in the order of its statements.\<close>

definition purged_tables :: "table list" where
  "purged_tables =
     [JobSkills, Jobs, Skills, SkillCategories, Companies, Locations, Platforms,
      ScheduleTypes]"

definition delete_previous_info :: "db \<Rightarrow> db" where
  "delete_previous_info d = fold delete_from purged_tables d"

section \<open>Dimension populators\<close>

text \<open>
  \<open>INSERT INTO t (name) VALUES (n) ON CONFLICT (name) DO NOTHING\<close> on an (id, name)
  table: the sequence gives out a value for the candidate row, which is dropped when
  the name is already there.
\<close>

definition insert_name :: "string \<Rightarrow> dim_row list \<times> nat \<Rightarrow> dim_row list \<times> nat" where
  "insert_name n st =
     (let new_id = Suc (snd st) in
      if n \<in> dim_name ` set (fst st) then (fst st, new_id)
      else (fst st @ [\<lparr>dim_id = new_id, dim_name = n\<rparr>], new_id))"

definition insert_names :: "string list \<Rightarrow> dim_row list \<times> nat \<Rightarrow> dim_row list \<times> nat" where
  "insert_names ns st = fold insert_name ns st"

text \<open>
  The rows of
  \<open>SELECT DISTINCT TRIM(COALESCE(company_name, 'Unknown')) FROM staging_jobs
   WHERE TRIM(company_name) != ''\<close>.
\<close>

definition companies_select :: "orders \<Rightarrow> db \<Rightarrow> string list" where
  "companies_select env d =
     rows_order env (remdups
       (map (\<lambda>r. sql_trim (the (coalesce (company_name r) (Some ''Unknown''))))
          (filter (\<lambda>r. is_true (sql_neq (map_option sql_trim (company_name r)) (Some [])))
             (staging_jobs d))))"

definition populate_companies :: "orders \<Rightarrow> db \<Rightarrow> db" where
  "populate_companies env d =
     (let result = insert_names (companies_select env d) (companies d, seqs d Companies)
      in d\<lparr>companies := fst result, seqs := (seqs d)(Companies := snd result)\<rparr>)"

text \<open>
  \<open>INSERT INTO locations ... VALUES (:main_city, :main_state_province,
   COALESCE(:country, 'Unknown'), COALESCE(:full_location, 'Unknown'))
   ON CONFLICT (main_city, main_state_province, country, full_location) DO NOTHING\<close>.
\<close>

definition location_conflict :: "location_row \<Rightarrow> location_row \<Rightarrow> bool" where
  "location_conflict a b =
     (is_true (sql_eq (main_city a) (main_city b)) \<and>
      is_true (sql_eq (main_state_province a) (main_state_province b)) \<and>
      l_country a = l_country b \<and> full_location a = full_location b)"

definition insert_location ::
  "location_components \<Rightarrow> string option \<Rightarrow> location_row list \<times> nat
     \<Rightarrow> location_row list \<times> nat" where
  "insert_location components location_string st =
     (let new_id = Suc (snd st);
          row = \<lparr>location_id = new_id,
                 main_city = city components,
                 main_state_province = state_province components,
                 l_country = the (coalesce (country components) (Some ''Unknown'')),
                 full_location = the (coalesce location_string (Some ''Unknown''))\<rparr>
      in if \<exists>old \<in> set (fst st). location_conflict old row then (fst st, new_id)
         else (fst st @ [row], new_id))"

text \<open>The rows of \<open>SELECT DISTINCT job_location, job_country FROM staging_jobs\<close>.\<close>

definition locations_select :: "orders \<Rightarrow> db \<Rightarrow> (string option \<times> string option) list" where
  "locations_select env d =
     pairs_order env (remdups (map (\<lambda>r. (job_location r, job_country r)) (staging_jobs d)))"

definition populate_locations :: "orders \<Rightarrow> db \<Rightarrow> db" where
  "populate_locations env d =
     (let result =
        fold (\<lambda>loc_row. insert_location
                 (extract_location_components (fst loc_row) (snd loc_row)) (fst loc_row))
          (locations_select env d) (locations d, seqs d Locations)
      in d\<lparr>locations := fst result, seqs := (seqs d)(Locations := snd result)\<rparr>)"

text \<open>
  The rows of \<open>SELECT DISTINCT TRIM(REGEXP_REPLACE(job_via, ...)) FROM staging_jobs
   WHERE job_via IS NOT NULL AND TRIM(job_via) <> ''\<close>.
\<close>

definition platforms_select :: "orders \<Rightarrow> db \<Rightarrow> string list" where
  "platforms_select env d =
     rows_order env (remdups
       (map (\<lambda>r. sql_trim (regexp_replace_via (the (job_via r))))
          (filter (\<lambda>r. job_via r \<noteq> None \<and>
                        is_true (sql_neq (map_option sql_trim (job_via r)) (Some [])))
             (staging_jobs d))))"

definition populate_platforms :: "orders \<Rightarrow> db \<Rightarrow> db" where
  "populate_platforms env d =
     (let result = insert_names (platforms_select env d) (platforms d, seqs d Platforms)
      in d\<lparr>platforms := fst result, seqs := (seqs d)(Platforms := snd result)\<rparr>)"

text \<open>
  The rows of \<open>SELECT DISTINCT TRIM(job_schedule_type) FROM staging_jobs
   WHERE job_schedule_type IS NOT NULL AND TRIM(job_schedule_type) != ''\<close>.
\<close>

definition schedule_types_select :: "orders \<Rightarrow> db \<Rightarrow> string list" where
  "schedule_types_select env d =
     rows_order env (remdups
       (map (\<lambda>r. sql_trim (the (job_schedule_type r)))
          (filter (\<lambda>r. job_schedule_type r \<noteq> None \<and>
                        is_true (sql_neq (map_option sql_trim (job_schedule_type r)) (Some [])))
             (staging_jobs d))))"

definition populate_schedule_types :: "orders \<Rightarrow> db \<Rightarrow> db" where
  "populate_schedule_types env d =
     (let result =
        insert_names (schedule_types_select env d) (schedule_types d, seqs d ScheduleTypes)
      in d\<lparr>schedule_types := fst result, seqs := (seqs d)(ScheduleTypes := snd result)\<rparr>)"

section \<open>Skill Taxonomy Builder\<close>

datatype error = AttributeError

text \<open>Python truthiness of a JSON value, and \<open>set.add\<close> on an insertion-ordered set.\<close>

fun truthy :: "json \<Rightarrow> bool" where
  "truthy JNull = False"
| "truthy (JBool b) = b"
| "truthy (JNum n) = (n \<noteq> 0)"
| "truthy (JStr s) = (s \<noteq> [])"
| "truthy (JArr xs) = (xs \<noteq> [])"
| "truthy (JObj kvs) = (kvs \<noteq> [])"

definition set_add :: "'a \<Rightarrow> 'a list \<Rightarrow> 'a list" where
  "set_add x xs = (if x \<in> set xs then xs else xs @ [x])"

text \<open>
  \<open>for skill in skills: if skill: skills_by_category[category].add(skill.lower().strip())\<close>;
  a truthy value that is not a string has no \<open>lower\<close>.
\<close>

fun add_skills :: "json list \<Rightarrow> string list \<Rightarrow> error + string list" where
  "add_skills [] acc = Inr acc"
| "add_skills (skill # rest) acc =
     (if truthy skill then
        (case skill of
           JStr s \<Rightarrow> add_skills rest (set_add (py_strip (lower s)) acc)
         | _ \<Rightarrow> Inl AttributeError)
      else add_skills rest acc)"

text \<open>
  The two collections of the builder: \<open>all_categories\<close> (a set) and
  \<open>skills_by_category\<close> (a dict of sets, in insertion order).
\<close>

type_synonym taxonomy = "string list \<times> (string \<times> string list) list"

definition dict_get :: "(string \<times> 'v) list \<Rightarrow> string \<Rightarrow> 'v option" where
  "dict_get kvs k = map_of kvs k"

fun dict_set :: "string \<Rightarrow> 'v \<Rightarrow> (string \<times> 'v) list \<Rightarrow> (string \<times> 'v) list" where
  "dict_set k v [] = [(k, v)]"
| "dict_set k v ((k', v') # kvs) =
     (if k' = k then (k, v) # kvs else (k', v') # dict_set k v kvs)"

text \<open>\<open>for category, skills in skill_dict.items(): ...\<close> (\<open>skill_values\<close> is \<open>skills\<close>).\<close>

fun add_categories :: "(string \<times> json) list \<Rightarrow> taxonomy \<Rightarrow> error + taxonomy" where
  "add_categories [] tx = Inr tx"
| "add_categories ((category, skill_values) # rest) tx =
     (let all_categories = set_add category (fst tx);
          present = (case dict_get (snd tx) category of None \<Rightarrow> [] | Some s \<Rightarrow> s);
          skills_by_category = dict_set category present (snd tx)
      in case skill_values of
           JArr xs \<Rightarrow>
             (case add_skills xs present of
                Inl e \<Rightarrow> Inl e
              | Inr s \<Rightarrow> add_categories rest (all_categories, dict_set category s skills_by_category))
         | _ \<Rightarrow> add_categories rest (all_categories, skills_by_category))"

text \<open>\<open>for row in skill_type_rows: ... if skill_dict and isinstance(skill_dict, dict): ...\<close>\<close>

fun extract_taxonomy :: "json list \<Rightarrow> taxonomy \<Rightarrow> error + taxonomy" where
  "extract_taxonomy [] tx = Inr tx"
| "extract_taxonomy (skill_dict # rest) tx =
     (case skill_dict of
        JObj kvs \<Rightarrow>
          (if kvs \<noteq> [] then
             (case add_categories kvs tx of
                Inl e \<Rightarrow> Inl e
              | Inr tx' \<Rightarrow> extract_taxonomy rest tx')
           else extract_taxonomy rest tx)
      | _ \<Rightarrow> extract_taxonomy rest tx)"

text \<open>
  The rows of \<open>SELECT DISTINCT job_type_skills FROM staging_jobs
   WHERE job_type_skills IS NOT NULL\<close>.
\<close>

definition skill_type_rows :: "orders \<Rightarrow> db \<Rightarrow> json list" where
  "skill_type_rows env d =
     docs_order env (remdups
       (map (\<lambda>r. the (job_type_skills r))
          (filter (\<lambda>r. job_type_skills r \<noteq> None) (staging_jobs d))))"

text \<open>
  \<open>INSERT INTO skills (skill_name, category_id) VALUES (:name, :cat_id)
   ON CONFLICT (skill_name) DO NOTHING\<close>.
\<close>

definition insert_skill ::
  "nat option \<Rightarrow> string \<Rightarrow> skill_row list \<times> nat \<Rightarrow> skill_row list \<times> nat" where
  "insert_skill cat_id n st =
     (let new_id = Suc (snd st) in
      if n \<in> skill_name ` set (fst st) then (fst st, new_id)
      else (fst st @ [\<lparr>skill_id = new_id, skill_name = n, category_id = cat_id\<rparr>], new_id))"

text \<open>
  \<open>category_map = {row[1]: row[0] for row in result.fetchall()}\<close>: a later row
  replaces an earlier one of the same name.
\<close>

definition category_map :: "dim_row list \<Rightarrow> string \<Rightarrow> nat option" where
  "category_map rows = map_of (rev (map (\<lambda>r. (dim_name r, dim_id r)) rows))"

text \<open>\<open>for category, skills in skills_by_category.items(): for skill in skills: ...\<close>\<close>

definition insert_categorized ::
  "orders \<Rightarrow> (string \<Rightarrow> nat option) \<Rightarrow> (string \<times> string list) list
     \<Rightarrow> skill_row list \<times> nat \<Rightarrow> skill_row list \<times> nat" where
  "insert_categorized env cmap skills_by_category st =
     fold (\<lambda>(category, skills). fold (insert_skill (cmap category)) (set_order env skills))
       skills_by_category st"

text \<open>
  The rows of \<open>SELECT DISTINCT unnest(job_skills) AS skill FROM staging_jobs
   WHERE job_skills IS NOT NULL\<close>; an array element may be NULL.
\<close>

definition unnest :: "'a list option \<Rightarrow> 'a list" where
  "unnest a = (case a of None \<Rightarrow> [] | Some xs \<Rightarrow> xs)"

definition uncategorized_skills :: "orders \<Rightarrow> db \<Rightarrow> string option list" where
  "uncategorized_skills env d =
     elems_order env (remdups
       (concat (map (\<lambda>r. unnest (job_skills r))
          (filter (\<lambda>r. job_skills r \<noteq> None) (staging_jobs d)))))"

text \<open>
  \<open>for row in uncategorized_skills: skill = row[0].lower().strip(); INSERT ...\<close>;
  a NULL element has no \<open>lower\<close>.
\<close>

fun insert_uncategorized ::
  "string option list \<Rightarrow> skill_row list \<times> nat \<Rightarrow> error + skill_row list \<times> nat" where
  "insert_uncategorized [] st = Inr st"
| "insert_uncategorized (None # rest) st = Inl AttributeError"
| "insert_uncategorized (Some s # rest) st =
     insert_uncategorized rest (insert_skill None (py_strip (lower s)) st)"

text \<open>
  \<open>populate_skill_categories_and_skills\<close>. The categories are committed before the
  skills are inserted; an exception leaves the store at its last commit (the sequences
  are not rolled back).
\<close>

definition skills_seq_after ::
  "orders \<Rightarrow> (string \<times> string list) list \<Rightarrow> string option list \<Rightarrow> nat \<Rightarrow> nat" where
  "skills_seq_after env skills_by_category elems s =
     s + length (concat (map (\<lambda>(category, skills). set_order env skills) skills_by_category))
       + length (takeWhile (\<lambda>e. e \<noteq> None) elems)"

definition populate_skill_categories_and_skills :: "orders \<Rightarrow> db \<Rightarrow> error option \<times> db" where
  "populate_skill_categories_and_skills env d =
     (case extract_taxonomy (skill_type_rows env d) ([], []) of
        Inl e \<Rightarrow> (Some e, d)
      | Inr tx \<Rightarrow>
          (let all_categories = fst tx;
               skills_by_category = snd tx;
               cats = insert_names (set_order env all_categories)
                        (skill_categories d, seqs d SkillCategories);
               d1 = d\<lparr>skill_categories := fst cats,
                      seqs := (seqs d)(SkillCategories := snd cats)\<rparr>;
               st = insert_categorized env (category_map (skill_categories d1))
                      skills_by_category (skills d1, seqs d1 Skills);
               elems = uncategorized_skills env d1
           in (case insert_uncategorized elems st of
                 Inl e \<Rightarrow>
                   (Some e,
                    d1\<lparr>seqs := (seqs d1)
                       (Skills :=
                          skills_seq_after env skills_by_category elems (seqs d1 Skills))\<rparr>)
               | Inr result \<Rightarrow>
                   (None,
                    d1\<lparr>skills := fst result, seqs := (seqs d1)(Skills := snd result)\<rparr>))))"

section \<open>Fact Populator\<close>

definition BATCH_SIZE :: nat where
  "BATCH_SIZE = 10000"

text \<open>
  \<open>LEFT JOIN t ON cond\<close>, projected to the id of the joined row: the ids of the rows
  that satisfy the condition, or one NULL when none does.
\<close>

definition left_join_ids :: "('r \<Rightarrow> bool) \<Rightarrow> ('r \<Rightarrow> nat) \<Rightarrow> 'r list \<Rightarrow> nat option list" where
  "left_join_ids cond ident rows =
     (case filter cond rows of [] \<Rightarrow> [None] | ms \<Rightarrow> map (\<lambda>r. Some (ident r)) ms)"

definition company_join :: "staging_row \<Rightarrow> dim_row \<Rightarrow> bool" where
  "company_join s c =
     is_true (sql_eq (map_option sql_trim (coalesce (company_name s) (Some ''Unknown'')))
                (Some (dim_name c)))"

definition location_join :: "staging_row \<Rightarrow> location_row \<Rightarrow> bool" where
  "location_join s l =
     is_true (sql_and
       (sql_eq (coalesce (job_country s) (Some ''Unknown'')) (Some (l_country l)))
       (sql_eq (coalesce (job_location s) (Some ''Unknown'')) (Some (full_location l))))"

definition platform_join :: "staging_row \<Rightarrow> dim_row \<Rightarrow> bool" where
  "platform_join s p =
     is_true (sql_eq (map_option (\<lambda>v. sql_trim (regexp_replace_via v)) (job_via s))
                (Some (dim_name p)))"

definition schedule_type_join :: "staging_row \<Rightarrow> dim_row \<Rightarrow> bool" where
  "schedule_type_join s st =
     is_true (sql_eq (map_option sql_trim (job_schedule_type s)) (Some (dim_name st)))"

text \<open>The select list of the fact query, for one staging row and its joined ids.\<close>

definition job_of ::
  "staging_row \<Rightarrow> nat option \<Rightarrow> nat option \<Rightarrow> nat option \<Rightarrow> nat option \<Rightarrow> job_values" where
  "job_of s c l p st =
     \<lparr>j_job_title = coalesce (job_title s) (job_title_short s),
      j_job_title_short = job_title_short s,
      j_company_id = c,
      j_location_id = l,
      j_platform_id = p,
      j_schedule_type_id = st,
      j_job_work_from_home = job_work_from_home s,
      j_job_posted_date = job_posted_date s,
      j_job_no_degree_mention = job_no_degree_mention s,
      j_job_health_insurance = job_health_insurance s,
      j_salary_rate = salary_rate s,
      j_salary_year_avg = salary_year_avg s,
      j_salary_hour_avg = salary_hour_avg s,
      j_search_location = search_location s\<rparr>"

text \<open>The joined rows the fact query derives from one staging row.\<close>

definition joined_rows :: "db \<Rightarrow> staging_row \<Rightarrow> job_values list" where
  "joined_rows d s =
     [job_of s c l p st.
        c \<leftarrow> left_join_ids (company_join s) dim_id (companies d),
        l \<leftarrow> left_join_ids (location_join s) location_id (locations d),
        p \<leftarrow> left_join_ids (platform_join s) dim_id (platforms d),
        st \<leftarrow> left_join_ids (schedule_type_join s) dim_id (schedule_types d)]"

text \<open>\<open>WHERE NOT (s.job_title IS NULL AND s.job_title_short IS NULL)\<close>\<close>

definition qualifies :: "staging_row \<Rightarrow> bool" where
  "qualifies s = (\<not> (job_title s = None \<and> job_title_short s = None))"

text \<open>The rows of the fact query, \<open>ORDER BY s.id\<close>.\<close>

definition jobs_select :: "db \<Rightarrow> job_values list" where
  "jobs_select d =
     concat (map (joined_rows d) (filter qualifies (sort_key sid (staging_jobs d))))"

text \<open>
  \<open>SELECT COUNT(*) FROM staging_jobs
   WHERE NOT (job_title IS NULL AND job_title_short IS NULL)\<close>
\<close>

definition jobs_total :: "db \<Rightarrow> nat" where
  "jobs_total d = length (filter qualifies (staging_jobs d))"

text \<open>\<open>INSERT INTO jobs (...)\<close> of the rows of one batch.\<close>

definition insert_job :: "job_values \<Rightarrow> db \<Rightarrow> db" where
  "insert_job v d =
     (let new_id = Suc (seqs d Jobs) in
      d\<lparr>jobs := jobs d @ [\<lparr>job_id = new_id, cols = v\<rparr>],
        seqs := (seqs d)(Jobs := new_id)\<rparr>)"

text \<open>
  The batch loop of \<open>populate_jobs\<close>; the state is the store and the updates the
  progress bar has received (\<open>result.rowcount\<close> of each batch).
\<close>

function jobs_batches :: "nat \<Rightarrow> nat \<Rightarrow> db \<times> nat list \<Rightarrow> db \<times> nat list" where
  "jobs_batches offset total_rows st =
     (if offset < total_rows then
        let batch = take BATCH_SIZE (drop offset (jobs_select (fst st)));
            d' = fold insert_job batch (fst st);
            rows_inserted = length batch
        in jobs_batches (offset + BATCH_SIZE) total_rows (d', snd st @ [rows_inserted])
      else st)"
  by pat_completeness auto
termination
  by (relation "measure (\<lambda>(offset, total_rows, st). total_rows - offset)")
    (auto simp: BATCH_SIZE_def)

declare jobs_batches.simps [simp del]

definition populate_jobs_progress :: "db \<Rightarrow> db \<times> nat list" where
  "populate_jobs_progress d = jobs_batches 0 (jobs_total d) (d, [])"

definition populate_jobs :: "db \<Rightarrow> db" where
  "populate_jobs d = fst (populate_jobs_progress d)"

subsection \<open>Bridge\<close>

text \<open>
  \<open>JOIN staging_jobs stg ON j.job_title = stg.job_title
     AND j.job_posted_date = stg.job_posted_date\<close>
\<close>

definition staging_join :: "job_row \<Rightarrow> staging_row \<Rightarrow> bool" where
  "staging_join j stg =
     is_true (sql_and (sql_eq (j_job_title (cols j)) (job_title stg))
                      (sql_eq (j_job_posted_date (cols j)) (job_posted_date stg)))"

text \<open>\<open>JOIN skills s_map ON LOWER(TRIM(s_name)) = LOWER(s_map.skill_name)\<close>\<close>

definition skill_join :: "string option \<Rightarrow> skill_row \<Rightarrow> bool" where
  "skill_join s_name s_map =
     is_true (sql_eq (map_option (\<lambda>v. lower (sql_trim v)) s_name)
                (Some (lower (skill_name s_map))))"

text \<open>The joined rows of the bridge query, before \<open>ORDER BY\<close>.\<close>

definition bridge_rows :: "db \<Rightarrow> job_skill_row list" where
  "bridge_rows d =
     [\<lparr>js_job_id = job_id j, js_skill_id = skill_id s_map\<rparr>.
        j \<leftarrow> jobs d,
        stg \<leftarrow> filter (staging_join j) (staging_jobs d),
        s_name \<leftarrow> unnest (job_skills stg),
        s_map \<leftarrow> filter (skill_join s_name) (skills d)]"

text \<open>\<open>ORDER BY j.job_id, s_map.skill_id\<close>\<close>

definition bridge_select :: "db \<Rightarrow> job_skill_row list" where
  "bridge_select d = sort_key js_job_id (sort_key js_skill_id (bridge_rows d))"

text \<open>\<open>SELECT count(*)\<close> over the same joins.\<close>

definition bridge_total :: "db \<Rightarrow> nat" where
  "bridge_total d = length (bridge_rows d)"

text \<open>
  \<open>INSERT INTO job_skills (job_id, skill_id) ... ON CONFLICT DO NOTHING\<close> of one
  row; the state is the table and the count of rows that went in (\<open>rowcount\<close>).
\<close>

definition insert_job_skill ::
  "job_skill_row \<Rightarrow> job_skill_row list \<times> nat \<Rightarrow> job_skill_row list \<times> nat" where
  "insert_job_skill r st =
     (if r \<in> set (fst st) then st else (fst st @ [r], Suc (snd st)))"

text \<open>The batch loop of \<open>populate_job_skills\<close>.\<close>

function job_skills_batches :: "nat \<Rightarrow> nat \<Rightarrow> db \<times> nat list \<Rightarrow> db \<times> nat list" where
  "job_skills_batches offset total_rows st =
     (if offset < total_rows then
        let batch = take (BATCH_SIZE * 10) (drop offset (bridge_select (fst st)));
            result = fold insert_job_skill batch (job_skills_tbl (fst st), 0);
            d' = (fst st)\<lparr>job_skills_tbl := fst result\<rparr>;
            rows_inserted = snd result
        in job_skills_batches (offset + BATCH_SIZE * 10) total_rows
             (d', snd st @ [rows_inserted])
      else st)"
  by pat_completeness auto
termination
  by (relation "measure (\<lambda>(offset, total_rows, st). total_rows - offset)")
    (auto simp: BATCH_SIZE_def)

declare job_skills_batches.simps [simp del]

definition populate_job_skills_progress :: "db \<Rightarrow> db \<times> nat list" where
  "populate_job_skills_progress d = job_skills_batches 0 (bridge_total d) (d, [])"

definition populate_job_skills :: "db \<Rightarrow> db" where
  "populate_job_skills d = fst (populate_job_skills_progress d)"

section \<open>Transformation Orchestrator\<close>

text \<open>
  \<open>run_transformation\<close>: an exception of the taxonomy builder ends the run with the
  store as the last commit left it.
\<close>

definition run_transformation :: "orders \<Rightarrow> db \<Rightarrow> error option \<times> db" where
  "run_transformation env d =
     (let d0 = delete_previous_info d;
          d1 = populate_companies env d0;
          d2 = populate_locations env d1;
          d3 = populate_platforms env d2;
          d4 = populate_schedule_types env d3
      in case populate_skill_categories_and_skills env d4 of
           (Some e, d5) \<Rightarrow> (Some e, d5)
         | (None, d5) \<Rightarrow> (None, populate_job_skills (populate_jobs d5)))"

section \<open>Batch windows\<close>

text \<open>
  The windows \<open>LIMIT width OFFSET offset\<close> that a batch loop takes from an ordered
  result set: at offsets \<open>offset, offset + width, ...\<close> below \<open>total_rows\<close>.
\<close>

function windows :: "nat \<Rightarrow> nat \<Rightarrow> nat \<Rightarrow> 'a list \<Rightarrow> 'a list list" where
  "windows width offset total_rows rows =
     (if offset < total_rows \<and> 0 < width
      then take width (drop offset rows) # windows width (offset + width) total_rows rows
      else [])"
  by pat_completeness auto
termination
  by (relation "measure (\<lambda>(width, offset, total_rows, rows). total_rows - offset)") auto

declare windows.simps [simp del]

section \<open>Example data and notions of the analysis\<close>

text \<open>The store with every table empty, and a staging row with every column NULL.\<close>

definition empty_store :: db where
  "empty_store =
     \<lparr>staging_jobs = [], job_skills_tbl = [], jobs = [], skills = [],
      skill_categories = [], companies = [], locations = [], platforms = [],
      schedule_types = [], seqs = (\<lambda>t. 0)\<rparr>"

definition null_row :: "nat \<Rightarrow> staging_row" where
  "null_row i =
     \<lparr>sid = i, job_title_short = None, job_title = None, job_location = None,
      job_via = None, job_schedule_type = None, job_work_from_home = None,
      search_location = None, job_posted_date = None, job_no_degree_mention = None,
      job_health_insurance = None, job_country = None, salary_rate = None,
      salary_year_avg = None, salary_hour_avg = None, company_name = None,
      job_skills = None, job_type_skills = None\<rparr>"

text \<open>The number of bridge rows for one (job, skill) pair.\<close>

definition pair_count :: "nat \<Rightarrow> nat \<Rightarrow> job_skill_row list \<Rightarrow> nat" where
  "pair_count J S rows = length (filter (\<lambda>r. js_job_id r = J \<and> js_skill_id r = S) rows)"

text \<open>Four staging rows with company names: two spellings of one name, a blank, another.\<close>

definition companies_example :: db where
  "companies_example =
     empty_store\<lparr>staging_jobs :=
       [(null_row 1)\<lparr>company_name := Some '' Acme ''\<rparr>,
        (null_row 2)\<lparr>company_name := Some ''  ''\<rparr>,
        (null_row 3)\<lparr>company_name := Some ''Acme''\<rparr>,
        (null_row 4)\<lparr>company_name := Some ''Initech''\<rparr>]\<rparr>"

text \<open>A job row without title and without short title.\<close>

definition titleless :: "job_row \<Rightarrow> bool" where
  "titleless j = (j_job_title (cols j) = None \<and> j_job_title_short (cols j) = None)"

text \<open>
  Four staging rows: one with both titles, one with neither, one with the short title
  only, and a second posting with the title and date of the first; all but the second
  have a posting date and a skill.
\<close>

definition titles_example :: db where
  "titles_example =
     empty_store\<lparr>staging_jobs :=
       [(null_row 1)\<lparr>job_title := Some ''Senior Data Engineer'',
                      job_title_short := Some ''Data Engineer'',
                      job_posted_date := Some 20230101,
                      job_skills := Some [Some ''python'']\<rparr>,
        null_row 2,
        (null_row 3)\<lparr>job_title_short := Some ''Data Analyst'',
                      job_posted_date := Some 20230102,
                      job_skills := Some [Some ''sql'']\<rparr>,
        (null_row 4)\<lparr>job_title := Some ''Senior Data Engineer'',
                      job_title_short := Some ''Data Engineer'',
                      job_posted_date := Some 20230101,
                      job_skills := Some [Some ''python'']\<rparr>]\<rparr>"

text \<open>
  The store after the purge and the four set-based dimension populators, and the store
  on which \<open>run_transformation\<close> starts the bridge populator when the taxonomy
  builder has raised nothing.
\<close>

definition dimensions :: "orders \<Rightarrow> db \<Rightarrow> db" where
  "dimensions env d =
     populate_schedule_types env (populate_platforms env
       (populate_locations env (populate_companies env (delete_previous_info d))))"

definition taxonomy_built :: "orders \<Rightarrow> db \<Rightarrow> db" where
  "taxonomy_built env d = snd (populate_skill_categories_and_skills env (dimensions env d))"

definition facts_built :: "orders \<Rightarrow> db \<Rightarrow> db" where
  "facts_built env d = populate_jobs (taxonomy_built env d)"







section \<open>Dimension contents without surrogate ids\<close>






















section \<open>Properties of the Location Normalizer\<close>

lemma py_split_nonempty: "py_split sep s \<noteq> []"
  by (induction s) (auto split: list.splits)

lemma segments_nonempty: "segments raw \<noteq> []"
  by (simp add: segments_def py_split_nonempty)

lemma extract_location_components_amended:
  "extract_location_components l c = normalizer_amended l c"
proof (cases l)
  case None
  then show ?thesis
    by (simp add: extract_location_components_def normalizer_amended_def)
next
  case (Some raw)
  show ?thesis
  proof (cases "segments raw")
    case Nil
    then show ?thesis using segments_nonempty by blast
  next
    case (Cons c rest)
    note outer = this
    show ?thesis
    proof (cases rest)
      case Nil
      with outer Some show ?thesis
        by (simp add: extract_location_components_def normalizer_amended_def
            segments_def [symmetric])
    next
      case (Cons s more)
      with outer Some show ?thesis
        by (cases more)
          (simp_all add: extract_location_components_def normalizer_amended_def
            segments_def [symmetric])
    qed
  qed
qed

text \<open>
  C4, as stated, fails: the location \<open>", CA"\<close> has two segments, the first of them
  empty, and the normalizer returns a NULL city where the claim has the first segment.
\<close>

theorem location_normalizer_counterexample:
  "extract_location_components (Some '', CA'') (Some ''United States'')
     \<noteq> normalizer_as_stated (Some '', CA'') (Some ''United States'')"
  by (simp add: extract_location_components_def normalizer_as_stated_def segments_def
      py_strip_def py_isspace_def truthy_or_none_def)

text \<open>
  C4, amended: for every location and country the normalizer passes the country through
  unchanged and does exactly one of these: an empty or absent location gives NULL city
  and NULL state/province; otherwise the text is split on commas and every segment
  trimmed, the city is the first segment and the state/province the second (NULL when
  there is one segment only), further segments are ignored, and an empty segment is
  stored as NULL. The Rio de Janeiro scenario is an instance.
\<close>

theorem location_normalizer_behaviours:
  "extract_location_components location_string cntry
     = normalizer_amended location_string cntry
   \<and> country (extract_location_components location_string cntry) = cntry
   \<and> extract_location_components
       (Some ''Rio de Janeiro, State of Rio de Janeiro, Brazil'') (Some ''Brazil'')
     = \<lparr>city = Some ''Rio de Janeiro'',
        state_province = Some ''State of Rio de Janeiro'',
        country = Some ''Brazil''\<rparr>"
proof (intro conjI)
  show "extract_location_components location_string cntry
          = normalizer_amended location_string cntry"
    by (rule extract_location_components_amended)
  show "country (extract_location_components location_string cntry) = cntry"
    by (simp add: extract_location_components_def Let_def split: option.splits)
  show "extract_location_components
          (Some ''Rio de Janeiro, State of Rio de Janeiro, Brazil'') (Some ''Brazil'')
        = \<lparr>city = Some ''Rio de Janeiro'',
           state_province = Some ''State of Rio de Janeiro'',
           country = Some ''Brazil''\<rparr>"
    by (simp add: extract_location_components_def py_strip_def py_isspace_def
        truthy_or_none_def)
qed

theorem location_normalizer_behaviours_witness:
  "extract_location_components (Some ''San Francisco, CA'') (Some ''United States'')
     = \<lparr>city = Some ''San Francisco'', state_province = Some ''CA'',
        country = Some ''United States''\<rparr>
   \<and> extract_location_components (Some '' , '') None
     = \<lparr>city = None, state_province = None, country = None\<rparr>"
  using location_normalizer_behaviours [of "Some ''San Francisco, CA''" "Some ''United States''"]
    location_normalizer_behaviours [of "Some '' , ''" None]
  by (simp add: normalizer_amended_def segments_def py_strip_def py_isspace_def
      truthy_or_none_def)

section \<open>Frame lemmas and the batch loops\<close>

lemma staging_delete_previous_info [simp]:
  "staging_jobs (delete_previous_info d) = staging_jobs d"
  by (simp add: delete_previous_info_def purged_tables_def)

lemma staging_populate_companies [simp]:
  "staging_jobs (populate_companies env d) = staging_jobs d"
  by (simp add: populate_companies_def Let_def)

lemma staging_populate_locations [simp]:
  "staging_jobs (populate_locations env d) = staging_jobs d"
  by (simp add: populate_locations_def Let_def)

lemma staging_populate_platforms [simp]:
  "staging_jobs (populate_platforms env d) = staging_jobs d"
  by (simp add: populate_platforms_def Let_def)

lemma staging_populate_schedule_types [simp]:
  "staging_jobs (populate_schedule_types env d) = staging_jobs d"
  by (simp add: populate_schedule_types_def Let_def)

lemma staging_populate_skills [simp]:
  "staging_jobs (snd (populate_skill_categories_and_skills env d)) = staging_jobs d"
  by (simp add: populate_skill_categories_and_skills_def Let_def
      split: sum.splits prod.splits)

lemma fold_insert_job_fields [simp]:
  "staging_jobs (fold insert_job b d) = staging_jobs d"
  "companies (fold insert_job b d) = companies d"
  "locations (fold insert_job b d) = locations d"
  "platforms (fold insert_job b d) = platforms d"
  "schedule_types (fold insert_job b d) = schedule_types d"
  "skills (fold insert_job b d) = skills d"
  "skill_categories (fold insert_job b d) = skill_categories d"
  "job_skills_tbl (fold insert_job b d) = job_skills_tbl d"
  by (induction b arbitrary: d; simp add: insert_job_def Let_def)+

lemma fold_insert_job_jobs:
  "map cols (jobs (fold insert_job b d)) = map cols (jobs d) @ b"
  by (induction b arbitrary: d) (simp_all add: insert_job_def Let_def)

lemma joined_rows_fold_insert_job [simp]:
  "joined_rows (fold insert_job b d) = joined_rows d"
  by (rule ext) (simp add: joined_rows_def)

lemma jobs_select_fold_insert_job [simp]:
  "jobs_select (fold insert_job b d) = jobs_select d"
  by (simp add: jobs_select_def)

lemma jobs_batches_closed:
  "jobs_batches offset total_rows st =
     (fold insert_job (concat (windows BATCH_SIZE offset total_rows (jobs_select (fst st))))
        (fst st),
      snd st @ map length (windows BATCH_SIZE offset total_rows (jobs_select (fst st))))"
proof (induction offset total_rows st rule: jobs_batches.induct)
  case (1 offset total_rows st)
  have pos: "0 < BATCH_SIZE" by (simp add: BATCH_SIZE_def)
  show ?case
  proof (cases "offset < total_rows")
    case True
    define batch where "batch = take BATCH_SIZE (drop offset (jobs_select (fst st)))"
    define st' where "st' = (fold insert_job batch (fst st), snd st @ [length batch])"
    have unfold_w: "windows BATCH_SIZE offset total_rows (jobs_select (fst st)) =
        batch # windows BATCH_SIZE (offset + BATCH_SIZE) total_rows (jobs_select (fst st))"
      using True pos unfolding batch_def by (subst windows.simps) simp
    have step: "jobs_batches offset total_rows st =
        jobs_batches (offset + BATCH_SIZE) total_rows st'"
      using True unfolding st'_def batch_def
      by (subst jobs_batches.simps) (simp add: Let_def)
    have ih: "jobs_batches (offset + BATCH_SIZE) total_rows st' =
       (fold insert_job
          (concat (windows BATCH_SIZE (offset + BATCH_SIZE) total_rows (jobs_select (fst st'))))
          (fst st'),
        snd st' @ map length
          (windows BATCH_SIZE (offset + BATCH_SIZE) total_rows (jobs_select (fst st'))))"
      unfolding st'_def batch_def by (rule "1.IH" [OF True refl refl refl])
    show ?thesis
      unfolding step ih unfold_w by (simp add: st'_def)
  next
    case False
    then show ?thesis
      by (subst jobs_batches.simps, subst (1 2) windows.simps) simp
  qed
qed

lemma concat_windows:
  "concat (windows w offset total_rows rows) =
     take (length (windows w offset total_rows rows) * w) (drop offset rows)"
proof (induction w offset total_rows rows rule: windows.induct)
  case (1 w offset total_rows rows)
  show ?case
  proof (cases "offset < total_rows \<and> 0 < w")
    case True
    have "take w (drop offset rows) @ take (n * w) (drop (offset + w) rows)
            = take (w + n * w) (drop offset rows)" for n
      by (simp add: take_add add.commute)
    with True "1.IH" show ?thesis
      by (subst (1 2) windows.simps) simp
  next
    case False
    then show ?thesis by (subst (1 2) windows.simps) auto
  qed
qed

lemma windows_cover:
  "0 < w \<Longrightarrow> total_rows \<le> offset + length (windows w offset total_rows rows) * w"
proof (induction w offset total_rows rows rule: windows.induct)
  case (1 w offset total_rows rows)
  show ?case
  proof (cases "offset < total_rows")
    case True
    with "1.prems" "1.IH" show ?thesis
      by (subst windows.simps) auto
  next
    case False
    then show ?thesis by simp
  qed
qed

lemma concat_windows_all:
  assumes "0 < w" "length rows \<le> total_rows"
  shows "concat (windows w 0 total_rows rows) = rows"
  using windows_cover [OF assms(1), of total_rows 0 rows] assms(2)
  by (simp add: concat_windows)

lemma insert_job_skill_pair:
  "insert_job_skill r (t, n) = (if r \<in> set t then (t, n) else (t @ [r], Suc n))"
  by (simp add: insert_job_skill_def)

lemma fold_insert_job_skill_fst:
  "fst (fold insert_job_skill b (t, n)) = fst (fold insert_job_skill b (t, 0))"
proof (induction b arbitrary: t n)
  case Nil
  show ?case by simp
next
  case (Cons r b)
  show ?case
  proof (cases "r \<in> set t")
    case True
    then show ?thesis using Cons.IH [of t n] by (simp add: insert_job_skill_pair)
  next
    case False
    then show ?thesis
      using Cons.IH [of "t @ [r]" "Suc n"] Cons.IH [of "t @ [r]" "Suc 0"]
      by (simp add: insert_job_skill_pair)
  qed
qed

lemma fold_insert_job_skill_set:
  "set (fst (fold insert_job_skill b (t, n))) = set t \<union> set b"
  by (induction b arbitrary: t n) (auto simp: insert_job_skill_pair)

lemma fold_insert_job_skill_distinct:
  "distinct t \<Longrightarrow> distinct (fst (fold insert_job_skill b (t, n)))"
  by (induction b arbitrary: t n) (auto simp: insert_job_skill_pair)


lemma fold_insert_job_skill_append:
  "fst (fold insert_job_skill (b1 @ b2) (t, 0))
     = fst (fold insert_job_skill b2 (fst (fold insert_job_skill b1 (t, 0)), 0))"
  using fold_insert_job_skill_fst
    [of b2 "fst (fold insert_job_skill b1 (t, 0))" "snd (fold insert_job_skill b1 (t, 0))"]
  by simp

lemma bridge_select_update [simp]:
  "bridge_select (d\<lparr>job_skills_tbl := rows\<rparr>) = bridge_select d"
  by (simp add: bridge_select_def bridge_rows_def)

lemma job_skills_batches_step:
  assumes "offset < total_rows"
  shows "job_skills_batches offset total_rows st =
     job_skills_batches (offset + BATCH_SIZE * 10) total_rows
       ((fst st)\<lparr>job_skills_tbl :=
           fst (fold insert_job_skill
                  (take (BATCH_SIZE * 10) (drop offset (bridge_select (fst st))))
                  (job_skills_tbl (fst st), 0))\<rparr>,
        snd st @ [snd (fold insert_job_skill
                  (take (BATCH_SIZE * 10) (drop offset (bridge_select (fst st))))
                  (job_skills_tbl (fst st), 0))])"
  using assms by (subst job_skills_batches.simps) (simp add: Let_def)

lemma job_skills_batches_closed:
  "fst (job_skills_batches offset total_rows st) =
     (fst st)\<lparr>job_skills_tbl :=
        fst (fold insert_job_skill
               (concat (windows (BATCH_SIZE * 10) offset total_rows (bridge_select (fst st))))
               (job_skills_tbl (fst st), 0))\<rparr>"
proof (induction offset total_rows st rule: job_skills_batches.induct)
  case (1 offset total_rows st)
  have pos: "0 < BATCH_SIZE * 10" by (simp add: BATCH_SIZE_def)
  let ?R = "bridge_select (fst st)"
  show ?case
  proof (cases "offset < total_rows")
    case True
    define batch where "batch = take (BATCH_SIZE * 10) (drop offset ?R)"
    have unfold_w: "windows (BATCH_SIZE * 10) offset total_rows ?R =
        batch # windows (BATCH_SIZE * 10) (offset + BATCH_SIZE * 10) total_rows ?R"
      using True pos unfolding batch_def by (subst windows.simps) simp
    show ?thesis
      unfolding job_skills_batches_step [OF True] unfolding unfold_w
      by (subst "1.IH" [OF True refl refl refl refl])
        (simp add: batch_def fold_insert_job_skill_append del: fold_append)
  next
    case False
    then show ?thesis
      by (subst job_skills_batches.simps, subst windows.simps) simp
  qed
qed


lemma length_bridge_select: "length (bridge_select d) = bridge_total d"
  by (simp add: bridge_select_def bridge_total_def)

lemma populate_job_skills_closed:
  "populate_job_skills d =
     d\<lparr>job_skills_tbl :=
         fst (fold insert_job_skill (bridge_select d) (job_skills_tbl d, 0))\<rparr>"
proof -
  have "concat (windows (BATCH_SIZE * 10) 0 (bridge_total d) (bridge_select d))
          = bridge_select d"
    by (rule concat_windows_all) (simp_all add: BATCH_SIZE_def length_bridge_select)
  then show ?thesis
    by (simp add: populate_job_skills_def populate_job_skills_progress_def
        job_skills_batches_closed)
qed

lemma populate_jobs_closed:
  "populate_jobs d =
     fold insert_job
       (concat (windows BATCH_SIZE 0 (jobs_total d) (jobs_select d))) d"
  by (simp add: populate_jobs_def populate_jobs_progress_def jobs_batches_closed)

lemma staging_populate_jobs [simp]: "staging_jobs (populate_jobs d) = staging_jobs d"
  by (simp add: populate_jobs_closed)

lemma staging_populate_job_skills [simp]:
  "staging_jobs (populate_job_skills d) = staging_jobs d"
  by (simp add: populate_job_skills_closed)

lemma staging_run_transformation:
  "staging_jobs (snd (run_transformation env d)) = staging_jobs d"
proof -
  define d4 where "d4 = populate_schedule_types env (populate_platforms env
    (populate_locations env (populate_companies env (delete_previous_info d))))"
  have d4: "staging_jobs d4 = staging_jobs d" by (simp add: d4_def)
  obtain e d5 where r: "populate_skill_categories_and_skills env d4 = (e, d5)"
    by (cases "populate_skill_categories_and_skills env d4")
  have d5: "staging_jobs d5 = staging_jobs d4"
    using staging_populate_skills [of env d4] by (simp add: r)
  show ?thesis
    using d4 d5 r
    by (cases e) (simp_all add: run_transformation_def Let_def d4_def [symmetric])
qed

text \<open>
  C10: the purge empties the eight destination tables and not \<open>staging_jobs\<close>; no
  stage of the transformation changes the staging rows, and after a full run (also one
  an exception ended) the staging table holds what it held before.
\<close>

theorem staging_never_mutated:
  "StagingJobs \<notin> set purged_tables
   \<and> set purged_tables = UNIV - {StagingJobs}
   \<and> staging_jobs (delete_previous_info d) = staging_jobs d
   \<and> staging_jobs (populate_companies env d) = staging_jobs d
   \<and> staging_jobs (populate_locations env d) = staging_jobs d
   \<and> staging_jobs (populate_platforms env d) = staging_jobs d
   \<and> staging_jobs (populate_schedule_types env d) = staging_jobs d
   \<and> staging_jobs (snd (populate_skill_categories_and_skills env d)) = staging_jobs d
   \<and> staging_jobs (populate_jobs d) = staging_jobs d
   \<and> staging_jobs (populate_job_skills d) = staging_jobs d
   \<and> staging_jobs (snd (run_transformation env d)) = staging_jobs d"
proof -
  have "UNIV = {StagingJobs, JobSkills, Jobs, Skills, SkillCategories, Companies,
      Locations, Platforms, ScheduleTypes}"
    using table.exhaust by auto
  then have "set purged_tables = UNIV - {StagingJobs}"
    by (auto simp: purged_tables_def)
  then show ?thesis
    by (simp add: staging_run_transformation)
qed

theorem staging_never_mutated_witness:
  "staging_jobs (snd (run_transformation given_orders
      (empty_store\<lparr>staging_jobs := [null_row 1, null_row 2]\<rparr>))) = [null_row 1, null_row 2]"
  using staging_never_mutated
    [of "empty_store\<lparr>staging_jobs := [null_row 1, null_row 2]\<rparr>" given_orders]
  by simp

section \<open>Bridge uniqueness\<close>

lemma pair_count_distinct:
  assumes "distinct rows"
  shows "pair_count J S rows \<le> 1"
proof -
  have eq: "(\<lambda>r. js_job_id r = J \<and> js_skill_id r = S)
              = (\<lambda>r. r = \<lparr>js_job_id = J, js_skill_id = S\<rparr>)"
    by (rule ext) auto
  have "length (filter (\<lambda>r. r = x) xs) \<le> 1" if "distinct xs" for x :: job_skill_row and xs
    using that by (induction xs) (auto simp: filter_empty_conv)
  with assms show ?thesis
    by (simp add: pair_count_def eq)
qed

lemma job_skills_tbl_dimension_stages [simp]:
  "job_skills_tbl (delete_previous_info d) = []"
  "job_skills_tbl (populate_companies env d) = job_skills_tbl d"
  "job_skills_tbl (populate_locations env d) = job_skills_tbl d"
  "job_skills_tbl (populate_platforms env d) = job_skills_tbl d"
  "job_skills_tbl (populate_schedule_types env d) = job_skills_tbl d"
  "job_skills_tbl (snd (populate_skill_categories_and_skills env d)) = job_skills_tbl d"
  "job_skills_tbl (populate_jobs d) = job_skills_tbl d"
  by (simp_all add: delete_previous_info_def purged_tables_def populate_companies_def
      populate_locations_def populate_platforms_def populate_schedule_types_def
      populate_skill_categories_and_skills_def populate_jobs_closed Let_def
      split: sum.splits)

lemma distinct_populate_job_skills:
  "distinct (job_skills_tbl d) \<Longrightarrow> distinct (job_skills_tbl (populate_job_skills d))"
  by (simp add: populate_job_skills_closed fold_insert_job_skill_distinct)

lemma distinct_run_transformation:
  "distinct (job_skills_tbl (snd (run_transformation env d)))"
proof -
  define d4 where "d4 = populate_schedule_types env (populate_platforms env
    (populate_locations env (populate_companies env (delete_previous_info d))))"
  have d4: "job_skills_tbl d4 = []" by (simp add: d4_def)
  obtain e d5 where r: "populate_skill_categories_and_skills env d4 = (e, d5)"
    by (cases "populate_skill_categories_and_skills env d4")
  have d5: "job_skills_tbl d5 = []"
    using job_skills_tbl_dimension_stages(6) [of env d4] d4 by (simp add: r)
  show ?thesis
  proof (cases e)
    case None
    have "distinct (job_skills_tbl (populate_job_skills (populate_jobs d5)))"
      by (rule distinct_populate_job_skills) (simp add: d5)
    with None r show ?thesis
      by (simp add: run_transformation_def Let_def d4_def [symmetric])
  next
    case (Some a)
    with r d5 show ?thesis
      by (simp add: run_transformation_def Let_def d4_def [symmetric])
  qed
qed

text \<open>
  C6: when the bridge table has at most one row for every (job, skill) pair before the
  bridge populator runs (as it has after the purge), it has at most one row for every
  pair after it, whatever pairs the batches produce: a pair that is already there is
  dropped, the populator returns normally. After a full run the bridge table has at
  most one row for every pair.
\<close>

theorem bridge_uniqueness:
  "(distinct (job_skills_tbl d) \<longrightarrow>
      (\<forall>J S. pair_count J S (job_skills_tbl (populate_job_skills d)) \<le> 1))
   \<and> (\<forall>J S. pair_count J S (job_skills_tbl (snd (run_transformation env d))) \<le> 1)"
proof (intro conjI impI allI)
  fix J S
  assume "distinct (job_skills_tbl d)"
  then show "pair_count J S (job_skills_tbl (populate_job_skills d)) \<le> 1"
    by (intro pair_count_distinct distinct_populate_job_skills)
next
  fix J S
  show "pair_count J S (job_skills_tbl (snd (run_transformation env d))) \<le> 1"
    by (intro pair_count_distinct distinct_run_transformation)
qed


section \<open>Insert-if-absent on the name dimensions\<close>

lemma valid_orders_set:
  assumes "valid_orders env"
  shows "set (rows_order env xs) = set xs" "set (pairs_order env ps) = set ps"
    "set (docs_order env js) = set js" "set (elems_order env es) = set es"
    "set (set_order env ss) = set ss"
  using assms unfolding valid_orders_def by (metis mset_eq_setD)+

lemma valid_orders_distinct:
  assumes "valid_orders env"
  shows "distinct (rows_order env xs) = distinct xs"
    "distinct (pairs_order env ps) = distinct ps"
    "distinct (docs_order env js) = distinct js"
    "distinct (elems_order env es) = distinct es"
    "distinct (set_order env ss) = distinct ss"
  using assms unfolding valid_orders_def by (metis mset_eq_imp_distinct_iff)+

lemma valid_given_orders: "valid_orders given_orders"
  by (simp add: valid_orders_def given_orders_def)

lemma insert_name_pair:
  "insert_name n (rows, s) =
     (if n \<in> dim_name ` set rows then (rows, Suc s)
      else (rows @ [\<lparr>dim_id = Suc s, dim_name = n\<rparr>], Suc s))"
  by (simp add: insert_name_def Let_def)

lemma insert_names_Nil [simp]: "insert_names [] st = st"
  by (simp add: insert_names_def)

lemma insert_names_Cons [simp]:
  "insert_names (n # ns) st = insert_names ns (insert_name n st)"
  by (simp add: insert_names_def)

lemma insert_names_set:
  "dim_name ` set (fst (insert_names ns (rows, s))) = dim_name ` set rows \<union> set ns"
  by (induction ns arbitrary: rows s) (auto simp: insert_name_pair)

lemma insert_names_distinct:
  "distinct (map dim_name rows) \<Longrightarrow>
   distinct (map dim_name (fst (insert_names ns (rows, s))))"
  by (induction ns arbitrary: rows s) (auto simp: insert_name_pair)

lemma insert_names_keeps:
  "take (length rows) (fst (insert_names ns (rows, s))) = rows"
proof (induction ns arbitrary: rows s)
  case Nil
  show ?case by simp
next
  case (Cons n ns)
  show ?case
  proof (cases "n \<in> dim_name ` set rows")
    case True
    then show ?thesis using Cons.IH [of rows "Suc s"] by (simp add: insert_name_pair)
  next
    case False
    have "take (length rows) (take (length (rows @ [\<lparr>dim_id = Suc s, dim_name = n\<rparr>]))
            (fst (insert_names ns (rows @ [\<lparr>dim_id = Suc s, dim_name = n\<rparr>], Suc s))))
          = take (length rows) (rows @ [\<lparr>dim_id = Suc s, dim_name = n\<rparr>])"
      by (simp only: Cons.IH)
    with False show ?thesis by (simp add: insert_name_pair min_def)
  qed
qed

lemma insert_names_names:
  "distinct ns \<Longrightarrow>
   map dim_name (fst (insert_names ns (rows, s)))
     = map dim_name rows @ filter (\<lambda>n. n \<notin> dim_name ` set rows) ns"
proof (induction ns arbitrary: rows s)
  case Nil
  show ?case by simp
next
  case (Cons n ns)
  then have d: "distinct ns" and n: "n \<notin> set ns" by simp_all
  show ?case
  proof (cases "n \<in> dim_name ` set rows")
    case True
    then show ?thesis using Cons.IH [OF d, of rows "Suc s"] by (simp add: insert_name_pair)
  next
    case False
    have "filter (\<lambda>m. m \<notin> dim_name ` set (rows @ [\<lparr>dim_id = Suc s, dim_name = n\<rparr>])) ns
            = filter (\<lambda>m. m \<notin> dim_name ` set rows) ns"
      using n by (intro filter_cong) auto
    with False show ?thesis
      using Cons.IH [OF d, of "rows @ [\<lparr>dim_id = Suc s, dim_name = n\<rparr>]" "Suc s"]
      by (simp add: insert_name_pair)
  qed
qed

section \<open>Companies\<close>

lemma company_where:
  "is_true (sql_neq (map_option sql_trim (company_name r)) (Some []))
     \<longleftrightarrow> (\<exists>n. company_name r = Some n \<and> sql_trim n \<noteq> [])"
  by (cases "company_name r") (simp_all add: is_true_def sql_neq_def)

lemma companies_select_set:
  assumes "valid_orders env"
  shows "set (companies_select env d)
           = {sql_trim n |n r. r \<in> set (staging_jobs d) \<and> company_name r = Some n
                              \<and> sql_trim n \<noteq> []}"
    (is "?L = ?R")
proof
  show "?L \<subseteq> ?R"
  proof
    fix x assume "x \<in> ?L"
    then obtain r where r: "r \<in> set (staging_jobs d)"
      and w: "is_true (sql_neq (map_option sql_trim (company_name r)) (Some []))"
      and x: "x = sql_trim (the (coalesce (company_name r) (Some ''Unknown'')))"
      unfolding companies_select_def valid_orders_set(1) [OF assms] by auto
    from w obtain n where n: "company_name r = Some n" "sql_trim n \<noteq> []"
      unfolding company_where by blast
    with r x show "x \<in> ?R" by (auto simp: coalesce_def)
  qed
  show "?R \<subseteq> ?L"
  proof
    fix x assume "x \<in> ?R"
    then obtain n r where r: "r \<in> set (staging_jobs d)" and n: "company_name r = Some n"
      and t: "sql_trim n \<noteq> []" and x: "x = sql_trim n"
      by auto
    have w: "is_true (sql_neq (map_option sql_trim (company_name r)) (Some []))"
      unfolding company_where using n t by blast
    have "x = sql_trim (the (coalesce (company_name r) (Some ''Unknown'')))"
      using n x by (simp add: coalesce_def)
    with r w show "x \<in> ?L"
      unfolding companies_select_def valid_orders_set(1) [OF assms] by auto
  qed
qed

lemma companies_after:
  "companies (populate_companies env d)
     = fst (insert_names (companies_select env d) (companies d, seqs d Companies))"
  by (simp add: populate_companies_def Let_def)

text \<open>
  C1, as stated, fails: a staging table whose one row has a blank company name gets no
  company row named \<open>Unknown\<close> (it gets no company row at all).
\<close>

theorem companies_unknown_counterexample:
  "''Unknown'' \<notin> dim_name ` set (companies (populate_companies given_orders
       (empty_store\<lparr>staging_jobs := [(null_row 1)\<lparr>company_name := Some ''  ''\<rparr>]\<rparr>)))"
  by (simp add: populate_companies_def companies_select_def given_orders_def
      empty_store_def null_row_def is_true_def sql_neq_def sql_trim_def Let_def)

text \<open>
  C1, amended: the companies populator trims every non-NULL company name and inserts the
  trimmed name when it is not empty and not yet a company (the companies already there
  stay, and names stay unique); a blank name is left out and is not turned into
  \<open>Unknown\<close>. On a staging table without NULL company names the company names
  afterwards are exactly those before and the non-empty trimmed staging names.
\<close>

theorem companies_trimmed_nonblank:
  assumes "valid_orders env"
  shows "(\<forall>r \<in> set (staging_jobs d). \<forall>n. company_name r = Some n \<and> sql_trim n \<noteq> [] \<longrightarrow>
            sql_trim n \<in> dim_name ` set (companies (populate_companies env d)))
       \<and> ((\<forall>r \<in> set (staging_jobs d). company_name r \<noteq> None) \<longrightarrow>
            dim_name ` set (companies (populate_companies env d))
              = dim_name ` set (companies d)
                \<union> {sql_trim n |n r. r \<in> set (staging_jobs d) \<and> company_name r = Some n
                                      \<and> sql_trim n \<noteq> []})
       \<and> (distinct (map dim_name (companies d)) \<longrightarrow>
            distinct (map dim_name (companies (populate_companies env d))))
       \<and> take (length (companies d)) (companies (populate_companies env d)) = companies d"
proof (intro conjI ballI allI impI)
  fix r n
  assume "r \<in> set (staging_jobs d)" "company_name r = Some n \<and> sql_trim n \<noteq> []"
  then have "sql_trim n \<in> set (companies_select env d)"
    unfolding companies_select_set [OF assms] by auto
  then show "sql_trim n \<in> dim_name ` set (companies (populate_companies env d))"
    unfolding companies_after insert_names_set by simp
next
  show "dim_name ` set (companies (populate_companies env d))
          = dim_name ` set (companies d)
            \<union> {sql_trim n |n r. r \<in> set (staging_jobs d) \<and> company_name r = Some n
                                  \<and> sql_trim n \<noteq> []}"
    unfolding companies_after insert_names_set companies_select_set [OF assms] ..
next
  assume "distinct (map dim_name (companies d))"
  then show "distinct (map dim_name (companies (populate_companies env d)))"
    unfolding companies_after by (rule insert_names_distinct)
next
  show "take (length (companies d)) (companies (populate_companies env d)) = companies d"
    unfolding companies_after by (rule insert_names_keeps)
qed

theorem companies_trimmed_nonblank_witness:
  "''Acme'' \<in> dim_name ` set (companies (populate_companies given_orders companies_example))
   \<and> distinct (map dim_name (companies (populate_companies given_orders companies_example)))"
proof -
  note inst = companies_trimmed_nonblank [OF valid_given_orders, of companies_example]
  have row: "(null_row 1)\<lparr>company_name := Some '' Acme ''\<rparr>
               \<in> set (staging_jobs companies_example)"
    by (simp add: companies_example_def)
  have name: "company_name ((null_row 1)\<lparr>company_name := Some '' Acme ''\<rparr>) = Some '' Acme ''
               \<and> sql_trim '' Acme '' \<noteq> []"
    by (simp add: sql_trim_def)
  have trimmed: "sql_trim '' Acme '' = ''Acme''"
    by (simp add: sql_trim_def)
  have before: "distinct (map dim_name (companies companies_example))"
    by (simp add: companies_example_def empty_store_def)
  from inst row name
  have "sql_trim '' Acme ''
          \<in> dim_name ` set (companies (populate_companies given_orders companies_example))"
    by blast
  moreover from inst before
  have "distinct (map dim_name (companies (populate_companies given_orders companies_example)))"
    by blast
  ultimately show ?thesis by (simp only: trimmed)
qed

section \<open>The fact query\<close>

lemma left_join_ids_nonempty: "left_join_ids cond ident rows \<noteq> []"
  by (simp add: left_join_ids_def split: list.splits)

lemma joined_rows_nonempty: "joined_rows d s \<noteq> []"
proof -
  obtain c where "c \<in> set (left_join_ids (company_join s) dim_id (companies d))"
    using left_join_ids_nonempty [of "company_join s" dim_id "companies d"]
    by (meson last_in_set)
  moreover obtain l where "l \<in> set (left_join_ids (location_join s) location_id (locations d))"
    using left_join_ids_nonempty [of "location_join s" location_id "locations d"]
    by (meson last_in_set)
  moreover obtain p where "p \<in> set (left_join_ids (platform_join s) dim_id (platforms d))"
    using left_join_ids_nonempty [of "platform_join s" dim_id "platforms d"]
    by (meson last_in_set)
  moreover obtain st where
    "st \<in> set (left_join_ids (schedule_type_join s) dim_id (schedule_types d))"
    using left_join_ids_nonempty [of "schedule_type_join s" dim_id "schedule_types d"]
    by (meson last_in_set)
  ultimately have "job_of s c l p st \<in> set (joined_rows d s)"
    by (auto simp: joined_rows_def)
  then show ?thesis by auto
qed

lemma joined_rows_job_of:
  "v \<in> set (joined_rows d s) \<Longrightarrow> \<exists>c l p st. v = job_of s c l p st"
  by (auto simp: joined_rows_def)

lemma joined_rows_title:
  assumes "v \<in> set (joined_rows d s)"
  shows "j_job_title v = coalesce (job_title s) (job_title_short s)"
    and "j_job_title_short v = job_title_short s"
    and "j_job_posted_date v = job_posted_date s"
  using joined_rows_job_of [OF assms] by (auto simp: job_of_def)

lemma set_jobs_select:
  "set (jobs_select d) = (\<Union>s \<in> {s \<in> set (staging_jobs d). qualifies s}. set (joined_rows d s))"
  by (auto simp: jobs_select_def)

lemma qualifies_title:
  "qualifies s \<longleftrightarrow> coalesce (job_title s) (job_title_short s) \<noteq> None"
  by (cases "job_title s") (simp_all add: qualifies_def coalesce_def)

lemma jobs_after_populate_jobs:
  "map cols (jobs (populate_jobs d))
     = map cols (jobs d)
       @ take (length (windows BATCH_SIZE 0 (jobs_total d) (jobs_select d)) * BATCH_SIZE)
           (jobs_select d)"
  by (simp add: populate_jobs_closed fold_insert_job_jobs concat_windows)

lemma jobs_total_le_select: "jobs_total d \<le> length (jobs_select d)"
proof -
  have "length xs \<le> length (concat (map (joined_rows d) xs))" for xs
  proof (induction xs)
    case Nil
    show ?case by simp
  next
    case (Cons x xs)
    have "1 \<le> length (joined_rows d x)"
      using joined_rows_nonempty [of d x] by (simp add: Suc_le_eq)
    with Cons show ?case by simp
  qed
  from this [of "filter qualifies (sort_key sid (staging_jobs d))"]
  have "length (filter qualifies (sort_key sid (staging_jobs d))) \<le> length (jobs_select d)"
    by (simp add: jobs_select_def)
  moreover have "length (filter qualifies (sort_key sid (staging_jobs d)))
      = length (filter qualifies (staging_jobs d))"
  proof -
    have "mset (filter qualifies (sort_key sid (staging_jobs d)))
        = mset (filter qualifies (staging_jobs d))"
      by simp
    then show ?thesis by (rule mset_eq_length)
  qed
  ultimately show ?thesis by (simp add: jobs_total_def)
qed

section \<open>Exclusion law and stored titles\<close>

lemma jobs_dimension_stages [simp]:
  "jobs (delete_previous_info d) = []"
  "jobs (populate_companies env d) = jobs d"
  "jobs (populate_locations env d) = jobs d"
  "jobs (populate_platforms env d) = jobs d"
  "jobs (populate_schedule_types env d) = jobs d"
  "jobs (snd (populate_skill_categories_and_skills env d)) = jobs d"
  "jobs (populate_job_skills d) = jobs d"
  by (simp_all add: delete_previous_info_def purged_tables_def populate_companies_def
      populate_locations_def populate_platforms_def populate_schedule_types_def
      populate_skill_categories_and_skills_def populate_job_skills_closed Let_def
      split: sum.splits)

lemma select_row_titled:
  assumes "v \<in> set (jobs_select d)"
  shows "j_job_title v \<noteq> None"
proof -
  from assms obtain s where "qualifies s" "v \<in> set (joined_rows d s)"
    unfolding set_jobs_select by auto
  then show ?thesis by (simp add: joined_rows_title(1) qualifies_title)
qed

lemma inserted_rows_selected:
  "set (map cols (jobs (populate_jobs d))) \<subseteq> set (map cols (jobs d)) \<union> set (jobs_select d)"
  unfolding jobs_after_populate_jobs using set_take_subset by fastforce

lemma populate_jobs_titled:
  assumes "\<forall>j \<in> set (jobs d). \<not> titleless j"
  shows "\<forall>j \<in> set (jobs (populate_jobs d)). \<not> titleless j"
proof
  fix j assume "j \<in> set (jobs (populate_jobs d))"
  then have "cols j \<in> set (map cols (jobs (populate_jobs d)))" by simp
  with inserted_rows_selected [of d]
  have "cols j \<in> cols ` set (jobs d) \<or> cols j \<in> set (jobs_select d)" by auto
  then show "\<not> titleless j"
  proof
    assume "cols j \<in> cols ` set (jobs d)"
    then obtain j' where "j' \<in> set (jobs d)" "cols j = cols j'" by auto
    with assms show ?thesis by (auto simp: titleless_def)
  next
    assume "cols j \<in> set (jobs_select d)"
    then show ?thesis using select_row_titled by (auto simp: titleless_def)
  qed
qed

lemma run_transformation_titled:
  "\<forall>j \<in> set (jobs (snd (run_transformation env d))). \<not> titleless j"
proof -
  define d4 where "d4 = populate_schedule_types env (populate_platforms env
    (populate_locations env (populate_companies env (delete_previous_info d))))"
  have d4: "jobs d4 = []" by (simp add: d4_def)
  obtain e d5 where r: "populate_skill_categories_and_skills env d4 = (e, d5)"
    by (cases "populate_skill_categories_and_skills env d4")
  have d5: "jobs d5 = []"
    using jobs_dimension_stages(6) [of env d4] d4 by (simp add: r)
  show ?thesis
  proof (cases e)
    case None
    have "\<forall>j \<in> set (jobs (populate_jobs d5)). \<not> titleless j"
      by (rule populate_jobs_titled) (simp add: d5)
    with None r show ?thesis
      by (simp add: run_transformation_def Let_def d4_def [symmetric])
  next
    case (Some a)
    with r d5 show ?thesis
      by (simp add: run_transformation_def Let_def d4_def [symmetric])
  qed
qed

text \<open>
  C5: every row of the fact query comes from a staging row that has a title or a short
  title; a staging row with neither is outside the query, so nothing is inserted for
  it; every other staging row is in the query with at least one row. The fact populator
  inserts rows of the query only, so it keeps the exclusion law on the jobs table, and
  after a full run no job row has title and short title both NULL.
\<close>

theorem exclusion_law:
  "(\<forall>v \<in> set (jobs_select d). \<exists>s \<in> set (staging_jobs d). qualifies s \<and> v \<in> set (joined_rows d s))
   \<and> (\<forall>s :: staging_row. job_title s = None \<and> job_title_short s = None \<longrightarrow>
         \<not> qualifies s \<and> set (joined_rows d s) \<inter> set (jobs_select d) = {})
   \<and> (\<forall>s \<in> set (staging_jobs d). \<not> (job_title s = None \<and> job_title_short s = None) \<longrightarrow>
         qualifies s \<and> joined_rows d s \<noteq> [] \<and> set (joined_rows d s) \<subseteq> set (jobs_select d))
   \<and> set (map cols (jobs (populate_jobs d))) \<subseteq> set (map cols (jobs d)) \<union> set (jobs_select d)
   \<and> ((\<forall>j \<in> set (jobs d). \<not> titleless j) \<longrightarrow>
         (\<forall>j \<in> set (jobs (populate_jobs d)). \<not> titleless j))
   \<and> (\<forall>j \<in> set (jobs (snd (run_transformation env d))). \<not> titleless j)"
proof (intro conjI)
  show "\<forall>v \<in> set (jobs_select d). \<exists>s \<in> set (staging_jobs d). qualifies s \<and> v \<in> set (joined_rows d s)"
    unfolding set_jobs_select by auto
  show "\<forall>s :: staging_row. job_title s = None \<and> job_title_short s = None \<longrightarrow>
         \<not> qualifies s \<and> set (joined_rows d s) \<inter> set (jobs_select d) = {}"
  proof (intro allI impI conjI)
    fix s :: staging_row
    assume s: "job_title s = None \<and> job_title_short s = None"
    then show "\<not> qualifies s" by (simp add: qualifies_def)
    show "set (joined_rows d s) \<inter> set (jobs_select d) = {}"
    proof (rule ccontr)
      assume "set (joined_rows d s) \<inter> set (jobs_select d) \<noteq> {}"
      then obtain v where v: "v \<in> set (joined_rows d s)" "v \<in> set (jobs_select d)" by auto
      from v(1) s have "j_job_title v = None" by (simp add: joined_rows_title(1) coalesce_def)
      with select_row_titled [OF v(2)] show False by simp
    qed
  qed
  show "\<forall>s \<in> set (staging_jobs d). \<not> (job_title s = None \<and> job_title_short s = None) \<longrightarrow>
         qualifies s \<and> joined_rows d s \<noteq> [] \<and> set (joined_rows d s) \<subseteq> set (jobs_select d)"
    unfolding set_jobs_select using joined_rows_nonempty by (auto simp: qualifies_def)
  show "set (map cols (jobs (populate_jobs d))) \<subseteq> set (map cols (jobs d)) \<union> set (jobs_select d)"
    by (rule inserted_rows_selected)
  show "(\<forall>j \<in> set (jobs d). \<not> titleless j) \<longrightarrow>
         (\<forall>j \<in> set (jobs (populate_jobs d)). \<not> titleless j)"
    using populate_jobs_titled by blast
  show "\<forall>j \<in> set (jobs (snd (run_transformation env d))). \<not> titleless j"
    by (rule run_transformation_titled)
qed

theorem exclusion_law_witness:
  "\<not> qualifies (null_row 2)
   \<and> qualifies ((null_row 3)\<lparr>job_title_short := Some ''Data Analyst'',
                      job_posted_date := Some 20230102,
                      job_skills := Some [Some ''sql'']\<rparr>)
   \<and> list_all (\<lambda>j. \<not> titleless j) (jobs (populate_jobs titles_example))"
proof -
  note inst = exclusion_law [of titles_example given_orders]
  have none: "job_title (null_row 2) = None \<and> job_title_short (null_row 2) = None"
    by (simp add: null_row_def)
  let ?r = "(null_row 3)\<lparr>job_title_short := Some ''Data Analyst'',
                      job_posted_date := Some 20230102,
                      job_skills := Some [Some ''sql'']\<rparr>"
  have row: "?r \<in> set (staging_jobs titles_example)"
    by (simp add: titles_example_def)
  have some: "\<not> (job_title ?r = None \<and> job_title_short ?r = None)"
    by simp
  have before: "\<forall>j \<in> set (jobs titles_example). \<not> titleless j"
    by (simp add: titles_example_def empty_store_def)
  from inst none have "\<not> qualifies (null_row 2)" by blast
  moreover from inst row some have "qualifies ?r" by blast
  moreover from inst before
  have "\<forall>j \<in> set (jobs (populate_jobs titles_example)). \<not> titleless j" by blast
  ultimately show ?thesis by (simp add: list_all_iff)
qed

lemma staging_join_iff:
  "staging_join j stg \<longleftrightarrow>
     (\<exists>t dt. j_job_title (cols j) = Some t \<and> job_title stg = Some t
           \<and> j_job_posted_date (cols j) = Some dt \<and> job_posted_date stg = Some dt)"
  by (cases "j_job_title (cols j)"; cases "job_title stg";
      cases "j_job_posted_date (cols j)"; cases "job_posted_date stg")
    (auto simp: staging_join_def is_true_def sql_and_def sql_eq_def)

lemma inserted_jobs_selected:
  "set (map cols (drop (length (jobs d)) (jobs (populate_jobs d)))) \<subseteq> set (jobs_select d)"
proof -
  have "map cols (drop (length (jobs d)) (jobs (populate_jobs d)))
          = drop (length (map cols (jobs d))) (map cols (jobs (populate_jobs d)))"
    by (simp add: drop_map)
  also have "\<dots> = take (length (windows BATCH_SIZE 0 (jobs_total d) (jobs_select d)) * BATCH_SIZE)
           (jobs_select d)"
    unfolding jobs_after_populate_jobs by simp
  finally show ?thesis using set_take_subset by metis
qed

text \<open>
  C9: every row of the fact query, and so every job row the fact populator inserts,
  stores as its title the staging row's title when that is not NULL and the staging
  row's short title otherwise, and the stored title is not NULL. The bridge query
  matches a job with a staging row by comparing this stored title (and the posting
  date) with the staging row's raw title (and posting date); NULL matches nothing.
\<close>

theorem stored_title_coalesced:
  "(\<forall>v \<in> set (jobs_select d). \<exists>s \<in> set (staging_jobs d).
        qualifies s \<and> v \<in> set (joined_rows d s)
        \<and> j_job_title v = (case job_title s of Some t \<Rightarrow> Some t | None \<Rightarrow> job_title_short s)
        \<and> j_job_title v \<noteq> None)
   \<and> set (map cols (drop (length (jobs d)) (jobs (populate_jobs d)))) \<subseteq> set (jobs_select d)
   \<and> (\<forall>j stg. staging_join j stg \<longleftrightarrow>
         (\<exists>t dt. j_job_title (cols j) = Some t \<and> job_title stg = Some t
               \<and> j_job_posted_date (cols j) = Some dt \<and> job_posted_date stg = Some dt))
   \<and> (\<forall>j s stg. cols j \<in> set (joined_rows d s) \<longrightarrow>
         (staging_join j stg \<longleftrightarrow>
            job_title stg \<noteq> None
            \<and> job_title stg = coalesce (job_title s) (job_title_short s)
            \<and> job_posted_date stg \<noteq> None
            \<and> job_posted_date stg = job_posted_date s))"
proof (intro conjI)
  show "\<forall>v \<in> set (jobs_select d). \<exists>s \<in> set (staging_jobs d).
        qualifies s \<and> v \<in> set (joined_rows d s)
        \<and> j_job_title v = (case job_title s of Some t \<Rightarrow> Some t | None \<Rightarrow> job_title_short s)
        \<and> j_job_title v \<noteq> None"
  proof
    fix v assume v: "v \<in> set (jobs_select d)"
    then obtain s where s: "s \<in> set (staging_jobs d)" "qualifies s" "v \<in> set (joined_rows d s)"
      unfolding set_jobs_select by auto
    have "j_job_title v = (case job_title s of Some t \<Rightarrow> Some t | None \<Rightarrow> job_title_short s)"
      using joined_rows_title(1) [OF s(3)] by (simp add: coalesce_def)
    with s select_row_titled [OF v]
    show "\<exists>s \<in> set (staging_jobs d).
        qualifies s \<and> v \<in> set (joined_rows d s)
        \<and> j_job_title v = (case job_title s of Some t \<Rightarrow> Some t | None \<Rightarrow> job_title_short s)
        \<and> j_job_title v \<noteq> None"
      by blast
  qed
  show "set (map cols (drop (length (jobs d)) (jobs (populate_jobs d)))) \<subseteq> set (jobs_select d)"
    by (rule inserted_jobs_selected)
  show "\<forall>j stg. staging_join j stg \<longleftrightarrow>
         (\<exists>t dt. j_job_title (cols j) = Some t \<and> job_title stg = Some t
               \<and> j_job_posted_date (cols j) = Some dt \<and> job_posted_date stg = Some dt)"
    using staging_join_iff by blast
  show "\<forall>j s stg. cols j \<in> set (joined_rows d s) \<longrightarrow>
         (staging_join j stg \<longleftrightarrow>
            job_title stg \<noteq> None
            \<and> job_title stg = coalesce (job_title s) (job_title_short s)
            \<and> job_posted_date stg \<noteq> None
            \<and> job_posted_date stg = job_posted_date s)"
  proof (intro allI impI)
    fix j :: job_row and s stg :: staging_row
    assume "cols j \<in> set (joined_rows d s)"
    then have "j_job_title (cols j) = coalesce (job_title s) (job_title_short s)"
      "j_job_posted_date (cols j) = job_posted_date s"
      by (simp_all add: joined_rows_title)
    then show "staging_join j stg \<longleftrightarrow>
            job_title stg \<noteq> None
            \<and> job_title stg = coalesce (job_title s) (job_title_short s)
            \<and> job_posted_date stg \<noteq> None
            \<and> job_posted_date stg = job_posted_date s"
      unfolding staging_join_iff by (auto; metis)
  qed
qed

theorem stored_title_coalesced_witness:
  "list_all (\<lambda>v. j_job_title v \<noteq> None) (jobs_select titles_example)
   \<and> list_all (\<lambda>v. v \<in> set (jobs_select titles_example))
       (map cols (drop (length (jobs titles_example)) (jobs (populate_jobs titles_example))))"
proof -
  note inst = stored_title_coalesced [of titles_example]
  from inst have "\<forall>v \<in> set (jobs_select titles_example). j_job_title v \<noteq> None"
    by blast
  moreover from inst
  have "set (map cols (drop (length (jobs titles_example)) (jobs (populate_jobs titles_example))))
          \<subseteq> set (jobs_select titles_example)"
    by blast
  ultimately show ?thesis by (simp only: list_all_iff subset_iff) blast
qed

section \<open>The stages of a run\<close>

lemma run_transformation_stages:
  "run_transformation env d =
     (case fst (populate_skill_categories_and_skills env (dimensions env d)) of
        Some e \<Rightarrow> (Some e, taxonomy_built env d)
      | None \<Rightarrow> (None, populate_job_skills (facts_built env d)))"
  by (cases "populate_skill_categories_and_skills env (dimensions env d)")
    (simp add: run_transformation_def dimensions_def taxonomy_built_def facts_built_def
      Let_def split: option.splits)

lemma dimensions_fields:
  "staging_jobs (dimensions env d) = staging_jobs d"
  "job_skills_tbl (dimensions env d) = []"
  "jobs (dimensions env d) = []"
  "skills (dimensions env d) = []"
  "skill_categories (dimensions env d) = []"
  by (simp_all add: dimensions_def)
    (simp_all add: delete_previous_info_def purged_tables_def populate_companies_def
      populate_locations_def populate_platforms_def populate_schedule_types_def Let_def)

lemma select_purged [simp]:
  "companies_select env (delete_previous_info d) = companies_select env d"
  "locations_select env (delete_previous_info d) = locations_select env d"
  "platforms_select env (delete_previous_info d) = platforms_select env d"
  "schedule_types_select env (delete_previous_info d) = schedule_types_select env d"
  by (simp_all add: companies_select_def locations_select_def platforms_select_def
      schedule_types_select_def)

lemma dimensions_companies:
  "companies (dimensions env d)
     = fst (insert_names (companies_select env d) ([], seqs d Companies))"
  by (simp add: dimensions_def populate_schedule_types_def populate_platforms_def
      populate_locations_def Let_def)
    (simp add: populate_companies_def companies_select_def delete_previous_info_def
      purged_tables_def Let_def)

lemma dimensions_platforms:
  "platforms (dimensions env d)
     = fst (insert_names (platforms_select env d) ([], seqs d Platforms))"
  by (simp add: dimensions_def populate_schedule_types_def Let_def)
    (simp add: populate_platforms_def platforms_select_def populate_locations_def
      populate_companies_def delete_previous_info_def purged_tables_def Let_def)

lemma dimensions_schedule_types:
  "schedule_types (dimensions env d)
     = fst (insert_names (schedule_types_select env d) ([], seqs d ScheduleTypes))"
  by (simp add: dimensions_def populate_schedule_types_def schedule_types_select_def
      populate_platforms_def populate_locations_def
      populate_companies_def delete_previous_info_def purged_tables_def Let_def)

lemma dimensions_locations:
  "locations (dimensions env d)
     = fst (fold (\<lambda>loc_row. insert_location
                 (extract_location_components (fst loc_row) (snd loc_row)) (fst loc_row))
          (locations_select env d) ([], seqs d Locations))"
  by (simp add: dimensions_def populate_schedule_types_def populate_platforms_def Let_def)
    (simp add: populate_locations_def locations_select_def
      populate_companies_def delete_previous_info_def purged_tables_def Let_def)

lemma dimensions_seqs:
  "seqs (dimensions env d) SkillCategories = seqs d SkillCategories"
  "seqs (dimensions env d) Skills = seqs d Skills"
  "seqs (dimensions env d) Jobs = seqs d Jobs"
  by (simp_all add: dimensions_def delete_previous_info_def purged_tables_def
      populate_companies_def populate_locations_def populate_platforms_def
      populate_schedule_types_def Let_def)

lemma taxonomy_frame [simp]:
  "companies (snd (populate_skill_categories_and_skills env d)) = companies d"
  "locations (snd (populate_skill_categories_and_skills env d)) = locations d"
  "platforms (snd (populate_skill_categories_and_skills env d)) = platforms d"
  "schedule_types (snd (populate_skill_categories_and_skills env d)) = schedule_types d"
  "seqs (snd (populate_skill_categories_and_skills env d)) Jobs = seqs d Jobs"
  by (simp_all add: populate_skill_categories_and_skills_def Let_def split: sum.splits)

lemma uncategorized_skills_update [simp]:
  "uncategorized_skills env (d\<lparr>skill_categories := c, seqs := s\<rparr>) = uncategorized_skills env d"
  by (simp add: uncategorized_skills_def)

lemma taxonomy_success:
  assumes "extract_taxonomy (skill_type_rows env d) ([], []) = Inr tx"
    and "insert_uncategorized (uncategorized_skills env d)
           (insert_categorized env
              (category_map (fst (insert_names (set_order env (fst tx))
                 (skill_categories d, seqs d SkillCategories))))
              (snd tx) (skills d, seqs d Skills)) = Inr res"
  shows "fst (populate_skill_categories_and_skills env d) = None"
    and "skill_categories (snd (populate_skill_categories_and_skills env d))
           = fst (insert_names (set_order env (fst tx))
                    (skill_categories d, seqs d SkillCategories))"
    and "skills (snd (populate_skill_categories_and_skills env d)) = fst res"
  using assms by (simp_all add: populate_skill_categories_and_skills_def Let_def)

lemma taxonomy_built_fields:
  "staging_jobs (taxonomy_built env d) = staging_jobs d"
  "companies (taxonomy_built env d) = companies (dimensions env d)"
  "locations (taxonomy_built env d) = locations (dimensions env d)"
  "platforms (taxonomy_built env d) = platforms (dimensions env d)"
  "schedule_types (taxonomy_built env d) = schedule_types (dimensions env d)"
  "jobs (taxonomy_built env d) = []"
  "job_skills_tbl (taxonomy_built env d) = []"
  "seqs (taxonomy_built env d) Jobs = seqs d Jobs"
  by (simp_all add: taxonomy_built_def dimensions_fields dimensions_seqs)

lemma jobs_select_cong:
  assumes "staging_jobs d = staging_jobs d'" "companies d = companies d'"
    "locations d = locations d'" "platforms d = platforms d'"
    "schedule_types d = schedule_types d'"
  shows "jobs_select d = jobs_select d'" "jobs_total d = jobs_total d'"
proof -
  have "joined_rows d = joined_rows d'"
    using assms by (intro ext) (simp add: joined_rows_def)
  with assms show "jobs_select d = jobs_select d'" "jobs_total d = jobs_total d'"
    by (simp_all add: jobs_select_def jobs_total_def)
qed

lemma fold_insert_job_rows:
  "jobs (fold insert_job b d)
     = jobs d @ map (\<lambda>(i, v). \<lparr>job_id = i, cols = v\<rparr>) (enumerate (Suc (seqs d Jobs)) b)"
proof (induction b arbitrary: d)
  case Nil
  show ?case by simp
next
  case (Cons v b)
  show ?case
    by (simp add: Cons.IH) (simp add: insert_job_def Let_def)
qed

lemma populate_jobs_all:
  assumes "length (jobs_select d) \<le> jobs_total d"
  shows "jobs (populate_jobs d)
     = jobs d @ map (\<lambda>(i, v). \<lparr>job_id = i, cols = v\<rparr>)
                  (enumerate (Suc (seqs d Jobs)) (jobs_select d))"
proof -
  have "concat (windows BATCH_SIZE 0 (jobs_total d) (jobs_select d)) = jobs_select d"
    by (rule concat_windows_all) (simp_all add: BATCH_SIZE_def assms)
  then show ?thesis by (simp add: populate_jobs_closed fold_insert_job_rows)
qed

lemma facts_built_fields:
  "staging_jobs (facts_built env d) = staging_jobs d"
  "skills (facts_built env d) = skills (taxonomy_built env d)"
  "job_skills_tbl (facts_built env d) = []"
  by (simp_all add: facts_built_def taxonomy_built_fields populate_jobs_closed)

lemma facts_built_jobs:
  assumes "length (jobs_select (dimensions env d)) \<le> jobs_total (dimensions env d)"
  shows "jobs (facts_built env d)
     = map (\<lambda>(i, v). \<lparr>job_id = i, cols = v\<rparr>)
         (enumerate (Suc (seqs d Jobs)) (jobs_select (dimensions env d)))"
proof -
  have eq: "jobs_select (taxonomy_built env d) = jobs_select (dimensions env d)"
    "jobs_total (taxonomy_built env d) = jobs_total (dimensions env d)"
    by (rule jobs_select_cong; simp add: taxonomy_built_fields dimensions_fields)+
  show ?thesis
    unfolding facts_built_def
    by (subst populate_jobs_all) (simp_all add: eq assms taxonomy_built_fields)
qed

section \<open>A run on the example postings\<close>

lemmas sql_eval =
  is_true_def sql_neq_def sql_eq_def sql_and_def sql_trim_def coalesce_def unnest_def
  lower_def lower_char_def py_strip_def py_isspace_def char_of_def bit_0

lemma null_row_fields [simp]:
  "sid (null_row i) = i" "job_title_short (null_row i) = None" "job_title (null_row i) = None"
  "job_location (null_row i) = None" "job_via (null_row i) = None"
  "job_schedule_type (null_row i) = None" "job_posted_date (null_row i) = None"
  "job_country (null_row i) = None" "company_name (null_row i) = None"
  "job_skills (null_row i) = None" "job_type_skills (null_row i) = None"
  by (simp_all add: null_row_def)

lemma titles_example_staging:
  "staging_jobs titles_example =
       [(null_row 1)\<lparr>job_title := Some ''Senior Data Engineer'',
                      job_title_short := Some ''Data Engineer'',
                      job_posted_date := Some 20230101,
                      job_skills := Some [Some ''python'']\<rparr>,
        null_row 2,
        (null_row 3)\<lparr>job_title_short := Some ''Data Analyst'',
                      job_posted_date := Some 20230102,
                      job_skills := Some [Some ''sql'']\<rparr>,
        (null_row 4)\<lparr>job_title := Some ''Senior Data Engineer'',
                      job_title_short := Some ''Data Engineer'',
                      job_posted_date := Some 20230101,
                      job_skills := Some [Some ''python'']\<rparr>]"
  "seqs titles_example = (\<lambda>t. 0)"
  by (simp_all add: titles_example_def empty_store_def)

lemma titles_example_dimensions:
  "companies (dimensions given_orders titles_example) = []"
  "platforms (dimensions given_orders titles_example) = []"
  "schedule_types (dimensions given_orders titles_example) = []"
  "locations (dimensions given_orders titles_example) =
     [\<lparr>location_id = 1, main_city = None, main_state_province = None,
       l_country = ''Unknown'', full_location = ''Unknown''\<rparr>]"
  by (simp_all add: dimensions_companies dimensions_platforms dimensions_schedule_types
      dimensions_locations companies_select_def platforms_select_def
      schedule_types_select_def locations_select_def titles_example_staging
      given_orders_def sql_eval insert_location_def
      extract_location_components_def Let_def)

lemma titles_example_qualifying:
  "filter qualifies (sort_key sid (staging_jobs titles_example)) =
       [(null_row 1)\<lparr>job_title := Some ''Senior Data Engineer'',
                      job_title_short := Some ''Data Engineer'',
                      job_posted_date := Some 20230101,
                      job_skills := Some [Some ''python'']\<rparr>,
        (null_row 3)\<lparr>job_title_short := Some ''Data Analyst'',
                      job_posted_date := Some 20230102,
                      job_skills := Some [Some ''sql'']\<rparr>,
        (null_row 4)\<lparr>job_title := Some ''Senior Data Engineer'',
                      job_title_short := Some ''Data Engineer'',
                      job_posted_date := Some 20230101,
                      job_skills := Some [Some ''python'']\<rparr>]"
  "length (filter qualifies (staging_jobs titles_example)) = 3"
  by (simp_all add: titles_example_staging qualifies_def)

lemma titles_example_joined:
  assumes "company_name s = None" "job_via s = None" "job_schedule_type s = None"
    "job_country s = None" "job_location s = None"
  shows "joined_rows (dimensions given_orders titles_example) s
           = [job_of s None (Some 1) None None]"
  by (simp add: joined_rows_def left_join_ids_def titles_example_dimensions assms
      company_join_def platform_join_def schedule_type_join_def location_join_def sql_eval)

lemma titles_example_select:
  "jobs_select (dimensions given_orders titles_example) =
     [job_of ((null_row 1)\<lparr>job_title := Some ''Senior Data Engineer'',
                      job_title_short := Some ''Data Engineer'',
                      job_posted_date := Some 20230101,
                      job_skills := Some [Some ''python'']\<rparr>) None (Some 1) None None,
      job_of ((null_row 3)\<lparr>job_title_short := Some ''Data Analyst'',
                      job_posted_date := Some 20230102,
                      job_skills := Some [Some ''sql'']\<rparr>) None (Some 1) None None,
      job_of ((null_row 4)\<lparr>job_title := Some ''Senior Data Engineer'',
                      job_title_short := Some ''Data Engineer'',
                      job_posted_date := Some 20230101,
                      job_skills := Some [Some ''python'']\<rparr>) None (Some 1) None None]"
  "jobs_total (dimensions given_orders titles_example) = 3"
  by (simp_all add: jobs_select_def jobs_total_def dimensions_fields
      titles_example_qualifying titles_example_joined)

lemma titles_example_jobs:
  "jobs (facts_built given_orders titles_example)
     = [\<lparr>job_id = 1, cols =
          job_of ((null_row 1)\<lparr>job_title := Some ''Senior Data Engineer'',
                      job_title_short := Some ''Data Engineer'',
                      job_posted_date := Some 20230101,
                      job_skills := Some [Some ''python'']\<rparr>) None (Some 1) None None\<rparr>,
        \<lparr>job_id = 2, cols =
          job_of ((null_row 3)\<lparr>job_title_short := Some ''Data Analyst'',
                      job_posted_date := Some 20230102,
                      job_skills := Some [Some ''sql'']\<rparr>) None (Some 1) None None\<rparr>,
        \<lparr>job_id = 3, cols =
          job_of ((null_row 4)\<lparr>job_title := Some ''Senior Data Engineer'',
                      job_title_short := Some ''Data Engineer'',
                      job_posted_date := Some 20230101,
                      job_skills := Some [Some ''python'']\<rparr>) None (Some 1) None None\<rparr>]"
  by (subst facts_built_jobs) (simp_all add: titles_example_select titles_example_staging)

lemma titles_example_skills:
  "fst (populate_skill_categories_and_skills given_orders
          (dimensions given_orders titles_example)) = None"
  "skills (taxonomy_built given_orders titles_example)
     = [\<lparr>skill_id = 1, skill_name = ''sql'', category_id = None\<rparr>,
        \<lparr>skill_id = 2, skill_name = ''python'', category_id = None\<rparr>]"
proof -
  let ?d = "dimensions given_orders titles_example"
  have tx: "extract_taxonomy (skill_type_rows given_orders ?d) ([], []) = Inr ([], [])"
    by (simp add: skill_type_rows_def dimensions_fields titles_example_staging
        given_orders_def)
  have un: "uncategorized_skills given_orders ?d = [Some ''sql'', Some ''python'']"
    by (simp add: uncategorized_skills_def dimensions_fields titles_example_staging
        given_orders_def unnest_def)
  have ins: "insert_uncategorized (uncategorized_skills given_orders ?d)
           (insert_categorized given_orders
              (category_map (fst (insert_names (set_order given_orders (fst ([], [])))
                 (skill_categories ?d, seqs ?d SkillCategories))))
              (snd ([], [])) (skills ?d, seqs ?d Skills))
         = Inr ([\<lparr>skill_id = 1, skill_name = ''sql'', category_id = None\<rparr>,
                 \<lparr>skill_id = 2, skill_name = ''python'', category_id = None\<rparr>], 2)"
    by (simp add: un insert_categorized_def dimensions_fields dimensions_seqs
        titles_example_staging insert_skill_def sql_eval Let_def)
  show "fst (populate_skill_categories_and_skills given_orders ?d) = None"
    by (rule taxonomy_success(1) [OF tx ins])
  show "skills (taxonomy_built given_orders titles_example)
     = [\<lparr>skill_id = 1, skill_name = ''sql'', category_id = None\<rparr>,
        \<lparr>skill_id = 2, skill_name = ''python'', category_id = None\<rparr>]"
    unfolding taxonomy_built_def by (simp add: taxonomy_success(3) [OF tx ins])
qed

lemma job_of_title [simp]:
  "j_job_title (job_of s c l p st) = coalesce (job_title s) (job_title_short s)"
  "j_job_posted_date (job_of s c l p st) = job_posted_date s"
  by (simp_all add: job_of_def)

lemma titles_example_bridge_rows:
  "bridge_rows (facts_built given_orders titles_example)
     = [\<lparr>js_job_id = 1, js_skill_id = 2\<rparr>, \<lparr>js_job_id = 1, js_skill_id = 2\<rparr>,
        \<lparr>js_job_id = 3, js_skill_id = 2\<rparr>, \<lparr>js_job_id = 3, js_skill_id = 2\<rparr>]"
  by (simp add: bridge_rows_def titles_example_jobs facts_built_fields
      titles_example_skills titles_example_staging staging_join_def skill_join_def sql_eval)

lemma titles_example_bridge:
  "job_skills_tbl (populate_job_skills (facts_built given_orders titles_example))
     = [\<lparr>js_job_id = 1, js_skill_id = 2\<rparr>, \<lparr>js_job_id = 3, js_skill_id = 2\<rparr>]"
  by (simp add: populate_job_skills_closed bridge_select_def titles_example_bridge_rows
      facts_built_fields insert_job_skill_pair)

text \<open>
  On the example postings the bridge query yields the pair (job 1, skill 2) twice; the
  bridge table holds it once.
\<close>

theorem bridge_uniqueness_witness:
  "length (filter (\<lambda>r. r = \<lparr>js_job_id = 1, js_skill_id = 2\<rparr>)
      (bridge_select (facts_built given_orders titles_example))) = 2
   \<and> pair_count 1 2 (job_skills_tbl (populate_job_skills
         (facts_built given_orders titles_example))) \<le> 1"
proof -
  have twice: "length (filter (\<lambda>r. r = \<lparr>js_job_id = 1, js_skill_id = 2\<rparr>)
      (bridge_select (facts_built given_orders titles_example))) = 2"
    by (simp add: bridge_select_def titles_example_bridge_rows)
  have before: "distinct (job_skills_tbl (facts_built given_orders titles_example))"
    by (simp add: facts_built_fields)
  from bridge_uniqueness [of "facts_built given_orders titles_example"] before
  have "pair_count 1 2 (job_skills_tbl (populate_job_skills
         (facts_built given_orders titles_example))) \<le> 1"
    by blast
  with twice show ?thesis by (rule conjI)
qed

lemma skills_populate_job_skills: "skills (populate_job_skills d) = skills d"
  by (simp add: populate_job_skills_closed)

text \<open>
  C2 on the example postings. The third staging row has no title, the short title
  \<open>Data Analyst\<close>, a posting date and the skill \<open>sql\<close>; the run inserts its job
  (id 2, stored title \<open>Data Analyst\<close>) and the skill \<open>sql\<close> (id 1), and no bridge
  row for them: the bridge query compares the stored title with the NULL title of the
  staging row.
\<close>

theorem bridge_misses_untitled_posting:
  "fst (run_transformation given_orders titles_example) = None
   \<and> map (\<lambda>j. (job_id j, j_job_title (cols j)))
         (jobs (snd (run_transformation given_orders titles_example)))
       = [(1, Some ''Senior Data Engineer''), (2, Some ''Data Analyst''),
          (3, Some ''Senior Data Engineer'')]
   \<and> map (\<lambda>s. (skill_id s, skill_name s))
         (skills (snd (run_transformation given_orders titles_example)))
       = [(1, ''sql''), (2, ''python'')]
   \<and> job_skills_tbl (snd (run_transformation given_orders titles_example))
       = [\<lparr>js_job_id = 1, js_skill_id = 2\<rparr>, \<lparr>js_job_id = 3, js_skill_id = 2\<rparr>]"
  by (simp add: run_transformation_stages titles_example_skills titles_example_bridge
      skills_populate_job_skills titles_example_jobs facts_built_fields coalesce_def)


section \<open>Batch completeness\<close>






















section \<open>Insert-if-absent on the skills\<close>

lemma insert_skill_pair:
  "insert_skill c n (rows, s) =
     (if n \<in> skill_name ` set rows then (rows, Suc s)
      else (rows @ [\<lparr>skill_id = Suc s, skill_name = n, category_id = c\<rparr>], Suc s))"
  by (simp add: insert_skill_def Let_def)



lemma fold_insert_skill_names:
  "skill_name ` set (fst (fold (insert_skill c) ns (rows, s))) = skill_name ` set rows \<union> set ns"
  by (induction ns arbitrary: rows s) (auto simp: insert_skill_pair)






section \<open>The taxonomy scenario\<close>









section \<open>A run rebuilds the dimensions from staging\<close>

























section \<open>The extraction loop read as sets\<close>



lemma dict_set_keys: "fst ` set (dict_set k v kvs) = insert k (fst ` set kvs)"
proof (induction kvs)
  case Nil
  show ?case by simp
next
  case (Cons kv kvs)
  obtain k' v' where kv: "kv = (k', v')" by (cases kv)
  show ?case
  proof (cases "k' = k")
    case True
    with kv show ?thesis by simp
  next
    case False
    with kv Cons.IH show ?thesis by (simp add: insert_commute)
  qed
qed











section \<open>Natural keys do not depend on the enumeration orders\<close>









section \<open>Idempotence\<close>





end
